theory Spec2Isabelle
  imports Main "HOL-Library.Sublist"
begin

section \<open>Strings\<close>

text \<open>
  A Go \<open>string\<close> is a sequence of bytes; it is modelled as \<open>string\<close> (a list of
  8-bit characters). Text outside ASCII is its UTF-8 encoding, several bytes long.
\<close>

text \<open>
  The UTF-8 encodings of the code points for which Go's \<open>unicode.IsSpace\<close> holds:
  the six ASCII ones, U+0085, U+00A0, U+1680, U+2000 to U+200A, U+2028, U+2029, U+202F,
  U+205F and U+3000.
\<close>

definition space_runes :: "string list" where
  "space_runes =
     [[CHR 0x09], [CHR 0x0A], [CHR 0x0B], [CHR 0x0C], [CHR 0x0D], [CHR 0x20],
      [CHR 0xC2, CHR 0x85], [CHR 0xC2, CHR 0xA0],
      [CHR 0xE1, CHR 0x9A, CHR 0x80],
      [CHR 0xE2, CHR 0x80, CHR 0x80], [CHR 0xE2, CHR 0x80, CHR 0x81],
      [CHR 0xE2, CHR 0x80, CHR 0x82], [CHR 0xE2, CHR 0x80, CHR 0x83],
      [CHR 0xE2, CHR 0x80, CHR 0x84], [CHR 0xE2, CHR 0x80, CHR 0x85],
      [CHR 0xE2, CHR 0x80, CHR 0x86], [CHR 0xE2, CHR 0x80, CHR 0x87],
      [CHR 0xE2, CHR 0x80, CHR 0x88], [CHR 0xE2, CHR 0x80, CHR 0x89],
      [CHR 0xE2, CHR 0x80, CHR 0x8A],
      [CHR 0xE2, CHR 0x80, CHR 0xA8], [CHR 0xE2, CHR 0x80, CHR 0xA9],
      [CHR 0xE2, CHR 0x80, CHR 0xAF],
      [CHR 0xE2, CHR 0x81, CHR 0x9F],
      [CHR 0xE3, CHR 0x80, CHR 0x80]]"

text \<open>
  \<open>trim_lead rs s\<close> removes from the front of \<open>s\<close> every leading occurrence of one of the
  byte sequences \<open>rs\<close>, as \<open>strings.TrimLeftFunc\<close> removes leading runes.
\<close>

function trim_lead :: "string list \<Rightarrow> string \<Rightarrow> string" where
  "trim_lead rs s =
     (case find (\<lambda>r. r \<noteq> [] \<and> take (length r) s = r) rs of
        None \<Rightarrow> s
      | Some r \<Rightarrow> trim_lead rs (drop (length r) s))"
  by pat_completeness auto
termination
proof (relation "measure (\<lambda>(rs, s). length s)")
  show "wf (measure (\<lambda>(rs, s). length s))" by simp
next
  fix rs :: "string list" and s r :: string
  assume "find (\<lambda>r. r \<noteq> [] \<and> take (length r) s = r) rs = Some r"
  then have "r \<noteq> [] \<and> take (length r) s = r"
    by (auto simp: find_Some_iff)
  then have "s \<noteq> []" and "0 < length r" by auto
  then show "((rs, drop (length r) s), (rs, s)) \<in> measure (\<lambda>(rs, s). length s)"
    by simp
qed

declare trim_lead.simps [simp del]

text \<open>\<open>strings.TrimSpace\<close>: leading and trailing white space removed.\<close>

definition TrimSpace :: "string \<Rightarrow> string" where
  "TrimSpace s = rev (trim_lead (map rev space_runes) (rev (trim_lead space_runes s)))"

text \<open>\<open>strings.TrimSuffix\<close>.\<close>

definition TrimSuffix :: "string \<Rightarrow> string \<Rightarrow> string" where
  "TrimSuffix s suf =
     (if length suf \<le> length s \<and> drop (length s - length suf) s = suf
      then take (length s - length suf) s else s)"

section \<open>Lexical path joining (package \<open>path\<close>)\<close>

text \<open>
  \<open>path.Clean\<close> walks over the elements between slashes. Its output buffer is kept here as
  the list of elements written so far; \<open>dotdot\<close> counts the leading elements of the buffer
  that backtracking must not remove (the leading \<open>..\<close> elements of a path that is not
  rooted; for a rooted path it marks the leading slash and stays 0).
\<close>

fun split_slash :: "string \<Rightarrow> string list" where
  "split_slash [] = [[]]"
| "split_slash (c # cs) =
     (if c = CHR ''/'' then [] # split_slash cs
      else (case split_slash cs of [] \<Rightarrow> [[c]] | e # es \<Rightarrow> (c # e) # es))"

fun clean_step :: "bool \<Rightarrow> string list \<times> nat \<Rightarrow> string \<Rightarrow> string list \<times> nat" where
  "clean_step rooted (out, dotdot) e =
     (if e = [] then (out, dotdot)
      else if e = ''.'' then (out, dotdot)
      else if e = ''..'' then
        (if length out > dotdot then (butlast out, dotdot)
         else if \<not> rooted then (out @ [''..''], length out + 1)
         else (out, dotdot))
      else (out @ [e], dotdot))"

fun join_slash :: "string list \<Rightarrow> string" where
  "join_slash [] = []"
| "join_slash [e] = e"
| "join_slash (e # es) = e @ ''/'' @ join_slash es"

definition render :: "bool \<Rightarrow> string list \<Rightarrow> string" where
  "render rooted out =
     (if rooted then ''/'' @ join_slash out
      else if out = [] then ''.'' else join_slash out)"

definition Clean :: "string \<Rightarrow> string" where
  "Clean p =
     (if p = [] then ''.''
      else let rooted = (hd p = CHR ''/'')
           in render rooted (fst (foldl (clean_step rooted) ([], 0) (split_slash p))))"

text \<open>\<open>path.Join\<close> of two elements.\<close>

definition Join :: "string \<Rightarrow> string \<Rightarrow> string" where
  "Join a b =
     (if a = [] \<and> b = [] then []
      else if a = [] then Clean b
      else Clean (a @ ''/'' @ b))"

text \<open>
  A path \<open>p\<close> stays rooted under a prefix \<open>pre\<close> when it is the prefix itself or continues
  it after a separator.
\<close>

definition under_prefix :: "string \<Rightarrow> string \<Rightarrow> bool" where
  "under_prefix pre p \<longleftrightarrow>
     p = pre \<or> prefix (if pre \<noteq> [] \<and> last pre = CHR ''/'' then pre else pre @ ''/'') p"

text \<open>
  \<open>stays_within d es\<close>: starting \<open>d\<close> elements below some directory, the elements \<open>es\<close>
  never climb above that directory.
\<close>

fun stays_within :: "nat \<Rightarrow> string list \<Rightarrow> bool" where
  "stays_within d [] = True"
| "stays_within d (e # es) =
     (if e = [] \<or> e = ''.'' then stays_within d es
      else if e = ''..'' then 0 < d \<and> stays_within (d - 1) es
      else stays_within (Suc d) es)"


section \<open>Errors, requests and responses\<close>

text \<open>The error payload the API sends with a failed call (\<open>apiError\<close> in client.go).\<close>

record apiError =
  ae_Success :: bool
  ae_Message :: string
  ae_Status :: int

text \<open>
  Go \<open>error\<close> values: \<open>ErrText\<close> is an error this package builds with \<open>fmt.Errorf\<close> or
  \<open>errors.New\<close> from a fixed or formatted text, \<open>ErrWrap\<close> is \<open>fmt.Errorf("...: %w", err)\<close>,
  \<open>ErrAPI\<close> is a \<open>*apiError\<close>, \<open>EOF\<close> and \<open>ErrClosedPipe\<close> are the values of package
  \<open>io\<close>, and \<open>ErrLib\<close> is any other error of a library or a collaborator (transport,
  JSON or URL syntax, the attachment source).
\<close>

datatype error =
    ErrText string
  | ErrWrap string error
  | ErrAPI apiError
  | EOF
  | ErrClosedPipe
  | ErrLib string

record url =
  Scheme :: string
  Host :: string
  Path :: string

text \<open>
  A request body as the transport reads it: the bytes it receives and how the stream ends
  (\<open>Some EOF\<close> for a regular end, \<open>Some err\<close> for a read error, \<open>None\<close> for a stream whose
  writer never closes it, on which the reader blocks forever).
\<close>

record body =
  b_data :: string
  b_end :: "error option"

record request =
  Method :: string
  URL :: url
  Header :: "string \<rightharpoonup> string list"
  Body :: "body option"

record response =
  StatusCode :: int
  Status :: string
  ResBody :: string

text \<open>The constants of client.go.\<close>

definition DefaultBaseURL :: string where
  "DefaultBaseURL = ''https://public-api-v2.bags.fm/api/v1/''"

definition UserAgentDefault :: string where
  "UserAgentDefault = ''bags-go/0.1''"

text \<open>
  \<open>BagsClient\<close>. The transport \<open>HTTP\<close> is injectable; it is modelled by what it answers
  to a request.
\<close>

record client =
  HTTP :: "request \<Rightarrow> error + response"
  BaseURL :: string
  APIKey :: string
  UserAgent :: string

text \<open>
  The standard-library functions whose results the package only passes on are parameters:
  \<open>url.Parse\<close>, the error (if any) that \<open>http.NewRequestWithContext\<close> reports for a
  method and URL, \<open>json.Unmarshal\<close> into an \<open>apiError\<close>, and \<open>url.QueryEscape\<close>.
\<close>

record lib =
  url_Parse :: "string \<Rightarrow> error + url"
  NewRequest_error :: "string \<Rightarrow> url \<Rightarrow> error option"
  Unmarshal_apiError :: "string \<Rightarrow> error + apiError"
  QueryEscape :: "string \<Rightarrow> string"

subsection \<open>Header keys\<close>

definition to_upper :: "char \<Rightarrow> char" where
  "to_upper c =
     (case map_of (zip ''abcdefghijklmnopqrstuvwxyz'' ''ABCDEFGHIJKLMNOPQRSTUVWXYZ'') c of
        Some u \<Rightarrow> u | None \<Rightarrow> c)"

definition to_lower :: "char \<Rightarrow> char" where
  "to_lower c =
     (case map_of (zip ''ABCDEFGHIJKLMNOPQRSTUVWXYZ'' ''abcdefghijklmnopqrstuvwxyz'') c of
        Some l \<Rightarrow> l | None \<Rightarrow> c)"

definition validHeaderFieldByte :: "char \<Rightarrow> bool" where
  "validHeaderFieldByte c =
     (List.member
        (''abcdefghijklmnopqrstuvwxyz'' @ ''ABCDEFGHIJKLMNOPQRSTUVWXYZ'' @ ''0123456789'' @
         [CHR 0x21, CHR 0x23, CHR 0x24, CHR 0x25, CHR 0x26, CHR 0x27, CHR 0x2A, CHR 0x2B,
          CHR 0x2D, CHR 0x2E, CHR 0x5E, CHR 0x5F, CHR 0x60, CHR 0x7C, CHR 0x7E]) c)"

fun canon :: "bool \<Rightarrow> string \<Rightarrow> string" where
  "canon upper [] = []"
| "canon upper (c # cs) =
     (let c' = (if upper then to_upper c else to_lower c)
      in c' # canon (c' = CHR ''-'') cs)"

text \<open>\<open>textproto.CanonicalMIMEHeaderKey\<close>, which \<open>Header.Set\<close> applies to the key.\<close>

definition CanonicalMIMEHeaderKey :: "string \<Rightarrow> string" where
  "CanonicalMIMEHeaderKey s = (if list_all validHeaderFieldByte s then canon True s else s)"

definition Header_Set ::
  "(string \<rightharpoonup> string list) \<Rightarrow> string \<Rightarrow> string \<Rightarrow> (string \<rightharpoonup> string list)" where
  "Header_Set h k v = h(CanonicalMIMEHeaderKey k \<mapsto> [v])"

section \<open>Transport core (client.go)\<close>

definition newRequest ::
  "lib \<Rightarrow> client \<Rightarrow> string \<Rightarrow> string \<Rightarrow> body option \<Rightarrow> string \<Rightarrow> error + request" where
  "newRequest L c method relPath body contentType =
     (case url_Parse L (BaseURL c) of
        Inl err \<Rightarrow> Inl (ErrWrap ''parse base URL'' err)
      | Inr base0 \<Rightarrow>
          let base = base0\<lparr>Path := Join (TrimSuffix (Path base0) ''/'') relPath\<rparr>
          in (case NewRequest_error L method base of
                Some err \<Rightarrow> Inl err
              | None \<Rightarrow>
                  let h1 = Header_Set Map.empty ''x-api-key'' (APIKey c);
                      h2 = Header_Set h1 ''Accept'' ''application/json'';
                      h3 = (if contentType \<noteq> [] then Header_Set h2 ''Content-Type'' contentType
                            else h2);
                      ua = TrimSpace (UserAgent c);
                      h4 = (if ua \<noteq> [] then Header_Set h3 ''User-Agent'' ua else h3)
                  in Inr \<lparr>Method = method, URL = base, Header = h4, Body = body\<rparr>))"

text \<open>The marker appended to a cut body snippet, byte for byte as in client.go.\<close>

definition snippet_mark :: string where
  "snippet_mark = [CHR 0xC3, CHR 0xA2, CHR 0xE2, CHR 0x82, CHR 0xAC, CHR 0xC2, CHR 0xA6]"

text \<open>The local \<open>bodySnippet\<close> of \<open>do\<close>, computed from the bytes read from the body.\<close>

definition bodySnippet :: "string \<Rightarrow> string" where
  "bodySnippet data = (if length data > 512 then take 512 data @ snippet_mark else data)"

text \<open>
  \<open>do\<close> sends the request and decodes the answer. The target \<open>v\<close> is \<open>None\<close> for a nil
  target and otherwise the decoder of the target's type
  (\<open>json.NewDecoder(res.Body).Decode(v)\<close> on a zero-valued target). The second component of
  the result lists the requests handed to the transport.
\<close>

definition do ::
  "lib \<Rightarrow> client \<Rightarrow> request \<Rightarrow> (string \<Rightarrow> error + 'v) option \<Rightarrow>
   (error + 'v option) \<times> request list" where
  "do L c req v =
     (case HTTP c req of
        Inl err \<Rightarrow> (Inl err, [req])
      | Inr res \<Rightarrow>
          if StatusCode res < 200 \<or> StatusCode res \<ge> 300 then
            (let data = take (2 ^ 20) (ResBody res);
                 generic = ErrText (''bags api error: '' @ Status res @ '': '' @ bodySnippet data)
             in case Unmarshal_apiError L data of
                  Inl err \<Rightarrow> (Inl generic, [req])
                | Inr ae \<Rightarrow>
                    if ae_Message ae \<noteq> [] \<or> \<not> ae_Success ae then
                      (Inl (ErrAPI (if ae_Status ae = 0 then ae\<lparr>ae_Status := StatusCode res\<rparr>
                                    else ae)), [req])
                    else (Inl generic, [req]))
          else
            (case v of
               Some Decode \<Rightarrow>
                 (case Decode (ResBody res) of
                    Inl err \<Rightarrow> (Inl err, [req])
                  | Inr x \<Rightarrow> (Inr (Some x), [req]))
             | None \<Rightarrow> (Inr None, [req])))"

definition get ::
  "lib \<Rightarrow> client \<Rightarrow> string \<Rightarrow> (string \<Rightarrow> error + 'v) option \<Rightarrow>
   (error + 'v option) \<times> request list" where
  "get L c relPath v =
     (case newRequest L c ''GET'' relPath None [] of
        Inl err \<Rightarrow> (Inl err, [])
      | Inr req \<Rightarrow> do L c req v)"

text \<open>
  \<open>postJSON\<close>; \<open>Encode\<close> is \<open>json.NewEncoder(buf).Encode\<close> at the type of the body.
\<close>

definition postJSON ::
  "lib \<Rightarrow> ('b \<Rightarrow> error + string) \<Rightarrow> client \<Rightarrow> string \<Rightarrow> 'b option \<Rightarrow>
   (string \<Rightarrow> error + 'v) option \<Rightarrow> (error + 'v option) \<times> request list" where
  "postJSON L Encode c relPath body v =
     (case (case body of
              None \<Rightarrow> Inr None
            | Some b \<Rightarrow>
                (case Encode b of
                   Inl err \<Rightarrow> Inl (ErrWrap ''encode json'' err)
                 | Inr buf \<Rightarrow> Inr (Some \<lparr>b_data = buf, b_end = Some EOF\<rparr>))) of
        Inl err \<Rightarrow> (Inl err, [])
      | Inr rdr \<Rightarrow>
          (case newRequest L c ''POST'' relPath rdr ''application/json'' of
             Inl err \<Rightarrow> (Inl err, [])
           | Inr req \<Rightarrow> do L c req v))"


section \<open>Multipart upload (tokenlaunch.go)\<close>

subsection \<open>The pipe and the multipart writer\<close>

text \<open>
  The producer goroutine writes into the pipe while the transport reads from it. A write
  returns when the reader has taken the bytes or an end of the pipe is closed, so the run
  of the producer is a sequence of writes and closes whose results depend only on what the
  reader does; the model runs that sequence and records what the reader receives. The
  attachment source is taken to end after finitely many reads.

  \<open>io.Pipe\<close>, seen from the writer. \<open>p_data\<close> are the bytes the reader has received,
  \<open>p_werr\<close> is the error stored by the first close of the write end (\<open>None\<close> while it is
  open; \<open>Close\<close> stores \<open>EOF\<close>), and \<open>p_quota\<close> says how the reader behaves: \<open>None\<close> for a
  reader that reads until the stream ends, \<open>Some n\<close> for a reader that closes its end after
  \<open>n\<close> more bytes.
\<close>

record pipe =
  p_data :: string
  p_werr :: "error option"
  p_quota :: "nat option"

text \<open>A part of \<open>multipart.Writer\<close>: whether it is finished, and its last write error.\<close>

record part =
  pt_closed :: bool
  pt_we :: "error option"

text \<open>
  The state the producer works on: the pipe (\<open>pw\<close>, which is also \<open>mw.w\<close>) and the
  fields of the \<open>multipart.Writer\<close> \<open>mw\<close>.
\<close>

record upload =
  pw :: pipe
  boundary :: string
  lastpart :: "part option"

definition CRLF :: string where
  "CRLF = [CHR 0x0D, CHR 0x0A]"

definition dquote :: string where
  "dquote = [CHR 0x22]"

text \<open>
  \<open>pw.Write\<close>: fails once either end is closed; a reader that closes during the write has
  taken the bytes up to its quota.
\<close>

definition pw_Write :: "string \<Rightarrow> upload \<Rightarrow> error option \<times> upload" where
  "pw_Write b s =
     (let p = pw s in
      if p_werr p \<noteq> None then (Some ErrClosedPipe, s)
      else (case p_quota p of
              None \<Rightarrow> (None, s\<lparr>pw := p\<lparr>p_data := p_data p @ b\<rparr>\<rparr>)
            | Some n \<Rightarrow>
                if n = 0 then (Some ErrClosedPipe, s)
                else if length b \<le> n then
                  (None, s\<lparr>pw := p\<lparr>p_data := p_data p @ b, p_quota := Some (n - length b)\<rparr>\<rparr>)
                else
                  (Some ErrClosedPipe,
                   s\<lparr>pw := p\<lparr>p_data := p_data p @ take n b, p_quota := Some 0\<rparr>\<rparr>)))"

text \<open>\<open>pw.CloseWithError\<close>: the first stored error stays.\<close>

definition pw_CloseWithError :: "error \<Rightarrow> upload \<Rightarrow> upload" where
  "pw_CloseWithError err s =
     (let p = pw s in
      case p_werr p of
        None \<Rightarrow> s\<lparr>pw := p\<lparr>p_werr := Some err\<rparr>\<rparr>
      | Some e \<Rightarrow> s)"

definition pw_Close :: "upload \<Rightarrow> upload" where
  "pw_Close s = pw_CloseWithError EOF s"

text \<open>
  \<open>part.Write\<close> on the part created last (the only part this package writes to).
\<close>

definition part_Write :: "string \<Rightarrow> upload \<Rightarrow> error option \<times> upload" where
  "part_Write d s =
     (case lastpart s of
        None \<Rightarrow> (Some (ErrLib ''multipart: no part''), s)
      | Some p \<Rightarrow>
          if pt_closed p then (Some (ErrLib ''multipart: can't write to finished part''), s)
          else (case pw_Write d s of
                  (Some err, s') \<Rightarrow> (Some err, s'\<lparr>lastpart := Some (p\<lparr>pt_we := Some err\<rparr>)\<rparr>)
                | (None, s') \<Rightarrow> (None, s')))"

text \<open>
  \<open>mw.CreatePart\<close>: finishes the previous part, then writes the boundary line and the
  header lines. The header is given as its lines in the order of the sorted keys.
\<close>

definition header_lines :: "(string \<times> string) list \<Rightarrow> string" where
  "header_lines h = concat (map (\<lambda>(k, v). k @ '': '' @ v @ CRLF) h)"

definition mw_CreatePart :: "(string \<times> string) list \<Rightarrow> upload \<Rightarrow> error option \<times> upload" where
  "mw_CreatePart h s =
     (let s1 = (case lastpart s of
                  None \<Rightarrow> s
                | Some p \<Rightarrow> s\<lparr>lastpart := Some (p\<lparr>pt_closed := True\<rparr>)\<rparr>)
      in case (case lastpart s of None \<Rightarrow> None | Some p \<Rightarrow> pt_we p) of
           Some err \<Rightarrow> (Some err, s1)
         | None \<Rightarrow>
             let b = (if lastpart s \<noteq> None then CRLF @ ''--'' @ boundary s @ CRLF
                      else ''--'' @ boundary s @ CRLF)
                     @ header_lines h @ CRLF
             in (case pw_Write b s1 of
                   (Some err, s2) \<Rightarrow> (Some err, s2)
                 | (None, s2) \<Rightarrow>
                     (None, s2\<lparr>lastpart := Some \<lparr>pt_closed = False, pt_we = None\<rparr>\<rparr>)))"

text \<open>
  \<open>mw.WriteField\<close>. The field names this package passes contain no quote or backslash,
  so \<open>escapeQuotes\<close> leaves them as they are.
\<close>

definition mw_WriteField :: "string \<Rightarrow> string \<Rightarrow> upload \<Rightarrow> error option \<times> upload" where
  "mw_WriteField fieldname v s =
     (case mw_CreatePart
             [(''Content-Disposition'', ''form-data; name='' @ dquote @ fieldname @ dquote)] s of
        (Some err, s') \<Rightarrow> (Some err, s')
      | (None, s') \<Rightarrow> part_Write v s')"

text \<open>\<open>mw.Close\<close>: finishes the last part and writes the closing boundary line.\<close>

definition mw_Close :: "upload \<Rightarrow> error option \<times> upload" where
  "mw_Close s =
     (case lastpart s of
        Some p \<Rightarrow>
          (case pt_we p of
             Some err \<Rightarrow> (Some err, s\<lparr>lastpart := Some (p\<lparr>pt_closed := True\<rparr>)\<rparr>)
           | None \<Rightarrow> pw_Write (CRLF @ ''--'' @ boundary s @ ''--'' @ CRLF) (s\<lparr>lastpart := None\<rparr>))
      | None \<Rightarrow> pw_Write (CRLF @ ''--'' @ boundary s @ ''--'' @ CRLF) s)"

text \<open>
  The attachment source, an \<open>io.Reader\<close>: the chunks its \<open>Read\<close> calls return, and the
  error that ends it (\<open>EOF\<close> for a source read to its end).
\<close>

record reader =
  r_chunks :: "string list"
  r_end :: error

text \<open>\<open>io.Copy(part, src)\<close>.\<close>

fun io_Copy :: "string list \<Rightarrow> error \<Rightarrow> upload \<Rightarrow> error option \<times> upload" where
  "io_Copy [] er s = (if er = EOF then (None, s) else (Some er, s))"
| "io_Copy (c # cs) er s =
     (if c = [] then io_Copy cs er s
      else (case part_Write c s of
              (Some ew, s') \<Rightarrow> (Some ew, s')
            | (None, s') \<Rightarrow> io_Copy cs er s'))"

subsection \<open>Request types\<close>

record CreateTokenInfoRequest =
  Name :: string
  Symbol :: string
  Description :: string
  Telegram :: string
  Twitter :: string
  Website :: string
  Image :: "reader option"
  ImageFilename :: string
  ImageMIMEType :: string

record CreateTokenLaunchConfigRequest =
  LaunchWallet :: string

record CreateTokenLaunchTxRequest =
  IPFS :: string
  TokenMint :: string
  Wallet :: string
  InitialBuyLamports :: int
  ConfigKey :: string

record CreateTokenLaunchTxResult =
  Transaction :: string

record CreateFeeShareConfigRequest =
  WalletA :: string
  WalletB :: string
  WalletABps :: int
  WalletBBps :: int
  Payer :: string
  BaseMint :: string
  QuoteMint :: string

text \<open>The envelope every endpoint answers with, \<open>{success, response}\<close>.\<close>

record 'a envelope =
  env_Success :: bool
  env_Response :: 'a

subsection \<open>The producer\<close>

definition writeField :: "string \<Rightarrow> string \<Rightarrow> upload \<Rightarrow> error option \<times> upload" where
  "writeField k v s = (if TrimSpace v = [] then (None, s) else mw_WriteField k v s)"

text \<open>
  The goroutine of \<open>CreateTokenInfoAndMetadata\<close>. The two deferred calls run when it
  returns, the one deferred last first: \<open>pw.Close()\<close>, then \<open>mw.Close()\<close>.
\<close>

definition producer :: "CreateTokenInfoRequest \<Rightarrow> reader \<Rightarrow> upload \<Rightarrow> upload" where
  "producer inp img s0 =
     (let s1 = snd (writeField ''name'' (Name inp) s0);
          s2 = snd (writeField ''symbol'' (Symbol inp) s1);
          s3 = snd (writeField ''description'' (Description inp) s2);
          s4 = snd (writeField ''telegram'' (Telegram inp) s3);
          s5 = snd (writeField ''twitter'' (Twitter inp) s4);
          s6 = snd (writeField ''website'' (Website inp) s5);
          ctype = (if TrimSpace (ImageMIMEType inp) = [] then ''application/octet-stream''
                   else ImageMIMEType inp);
          h = [(''Content-Disposition'',
                ''form-data; name='' @ dquote @ ''image'' @ dquote @ ''; filename='' @ dquote
                  @ ImageFilename inp @ dquote),
               (''Content-Type'', ctype)];
          s9 = (case mw_CreatePart h s6 of
                  (Some err, s7) \<Rightarrow> pw_CloseWithError err s7
                | (None, s7) \<Rightarrow>
                    (case io_Copy (r_chunks img) (r_end img) s7 of
                       (Some err, s8) \<Rightarrow> pw_CloseWithError err s8
                     | (None, s8) \<Rightarrow> s8))
      in snd (mw_Close (pw_Close s9)))"

text \<open>
  \<open>io.Pipe()\<close> and \<open>multipart.NewWriter(pw)\<close>; the writer draws its boundary at random.
\<close>

definition new_upload :: "string \<Rightarrow> nat option \<Rightarrow> upload" where
  "new_upload bnd quota =
     \<lparr>pw = \<lparr>p_data = [], p_werr = None, p_quota = quota\<rparr>, boundary = bnd, lastpart = None\<rparr>"

text \<open>What the reader end \<open>pr\<close> of the pipe yields, as a request body.\<close>

definition pipe_body :: "upload \<Rightarrow> body" where
  "pipe_body s = \<lparr>b_data = p_data (pw s), b_end = p_werr (pw s)\<rparr>"

text \<open>
  \<open>mw.FormDataContentType()\<close>; a boundary drawn by the writer needs no quoting.
\<close>

definition FormDataContentType :: "string \<Rightarrow> string" where
  "FormDataContentType bnd = ''multipart/form-data; boundary='' @ bnd"


section \<open>Operations\<close>

text \<open>
  Each operation declares a zero-valued envelope \<open>env\<close> and passes its address to \<open>do\<close>.
  \<open>filled zero r\<close> is the content of that variable once \<open>do\<close> has returned without error.
  A request passed by pointer is an \<open>option\<close>, \<open>None\<close> for nil. The result structs are
  only filled by the decoder and handed on to the caller, so their type is left open.
  Every operation returns its result together with the requests handed to the transport.
\<close>

definition filled :: "'v \<Rightarrow> 'v option \<Rightarrow> 'v" where
  "filled zero r = (case r of None \<Rightarrow> zero | Some x \<Rightarrow> x)"

subsection \<open>analytics.go\<close>

definition GetTokenLifetimeFees ::
  "lib \<Rightarrow> (string \<Rightarrow> error + string envelope) \<Rightarrow> client \<Rightarrow> string \<Rightarrow>
   (error + string) \<times> request list" where
  "GetTokenLifetimeFees L Decode c tokenMint =
     (if TrimSpace tokenMint = [] then (Inl (ErrText ''tokenMint is required''), [])
      else
        (case newRequest L c ''GET''
                (''token-launch/lifetime-fees?tokenMint='' @ QueryEscape L tokenMint) None [] of
           Inl err \<Rightarrow> (Inl err, [])
         | Inr req \<Rightarrow>
             (case do L c req (Some Decode) of
                (Inl err, calls) \<Rightarrow> (Inl err, calls)
              | (Inr r, calls) \<Rightarrow>
                  let env = filled \<lparr>env_Success = False, env_Response = []\<rparr> r
                  in if \<not> env_Success env then (Inl (ErrText ''unexpected response''), calls)
                     else (Inr (env_Response env), calls))))"

definition GetTokenLaunchCreators ::
  "lib \<Rightarrow> (string \<Rightarrow> error + 'r list envelope) \<Rightarrow> client \<Rightarrow> string \<Rightarrow>
   (error + 'r list) \<times> request list" where
  "GetTokenLaunchCreators L Decode c tokenMint =
     (if TrimSpace tokenMint = [] then (Inl (ErrText ''tokenMint is required''), [])
      else
        (case newRequest L c ''GET''
                (''token-launch/creator/v2?tokenMint='' @ QueryEscape L tokenMint) None [] of
           Inl err \<Rightarrow> (Inl err, [])
         | Inr req \<Rightarrow>
             (case do L c req (Some Decode) of
                (Inl err, calls) \<Rightarrow> (Inl err, calls)
              | (Inr r, calls) \<Rightarrow>
                  let env = filled \<lparr>env_Success = False, env_Response = []\<rparr> r
                  in if \<not> env_Success env then (Inl (ErrText ''unexpected response''), calls)
                     else (Inr (env_Response env), calls))))"

subsection \<open>feeshare.go\<close>

text \<open>
  \<open>q.Encode()\<close> of the single pair set in \<open>GetFeeShareWallet\<close> is the key, \<open>=\<close>, and the
  escaped value; the key needs no escaping.
\<close>

definition GetFeeShareWallet ::
  "lib \<Rightarrow> (string \<Rightarrow> error + string envelope) \<Rightarrow> client \<Rightarrow> string \<Rightarrow>
   (error + string) \<times> request list" where
  "GetFeeShareWallet L Decode c twitterUsername =
     (let handle = TrimSpace twitterUsername in
      if handle = [] then (Inl (ErrText ''twitterUsername is required''), [])
      else
        let rel = ''token-launch/fee-share/wallet/twitter'';
            relWithQuery = rel @ ''?'' @ (''twitterUsername'' @ ''='' @ QueryEscape L handle)
        in (case newRequest L c ''GET'' relWithQuery None [] of
              Inl err \<Rightarrow> (Inl err, [])
            | Inr req \<Rightarrow>
                (case do L c req (Some Decode) of
                   (Inl err, calls) \<Rightarrow> (Inl err, calls)
                 | (Inr r, calls) \<Rightarrow>
                     let env = filled \<lparr>env_Success = False, env_Response = []\<rparr> r
                     in if \<not> env_Success env \<or> TrimSpace (env_Response env) = []
                        then (Inl (ErrText ''unexpected response''), calls)
                        else (Inr (env_Response env), calls))))"

definition CreateFeeShareConfig ::
  "lib \<Rightarrow> (CreateFeeShareConfigRequest \<Rightarrow> error + string) \<Rightarrow>
   (string \<Rightarrow> error + 'r option envelope) \<Rightarrow> client \<Rightarrow>
   CreateFeeShareConfigRequest option \<Rightarrow> (error + 'r) \<times> request list" where
  "CreateFeeShareConfig L Encode Decode c inp =
     (case inp of
        None \<Rightarrow> (Inl (ErrText ''nil request''), [])
      | Some rq \<Rightarrow>
          if TrimSpace (WalletA rq) = [] \<or> TrimSpace (WalletB rq) = [] \<or>
             TrimSpace (Payer rq) = [] \<or> TrimSpace (BaseMint rq) = [] \<or>
             TrimSpace (QuoteMint rq) = []
          then (Inl (ErrText ''walletA, walletB, payer, baseMint, and quoteMint are required''), [])
          else
            (case postJSON L Encode c ''token-launch/fee-share/create-config'' (Some rq)
                    (Some Decode) of
               (Inl err, calls) \<Rightarrow> (Inl err, calls)
             | (Inr r, calls) \<Rightarrow>
                 let env = filled \<lparr>env_Success = False, env_Response = None\<rparr> r
                 in if \<not> env_Success env then (Inl (ErrText ''unexpected response''), calls)
                    else (case env_Response env of
                            None \<Rightarrow> (Inl (ErrText ''unexpected response''), calls)
                          | Some res \<Rightarrow> (Inr res, calls))))"

subsection \<open>tokenlaunch.go\<close>

text \<open>
  \<open>CreateTokenInfoAndMetadata\<close>. \<open>bnd\<close> is the boundary the multipart writer draws and
  \<open>quota\<close> the way the transport reads the piped body (see \<open>pipe\<close>); the body the request
  carries is what the pipe's reader end yields while the producer runs.
\<close>

definition CreateTokenInfoAndMetadata ::
  "lib \<Rightarrow> (string \<Rightarrow> error + 'r option envelope) \<Rightarrow> string \<Rightarrow> nat option \<Rightarrow> client \<Rightarrow>
   CreateTokenInfoRequest option \<Rightarrow> (error + 'r) \<times> request list" where
  "CreateTokenInfoAndMetadata L Decode bnd quota c inp =
     (case inp of
        None \<Rightarrow> (Inl (ErrText ''nil request''), [])
      | Some rq \<Rightarrow>
          if TrimSpace (Name rq) = [] \<or> TrimSpace (Symbol rq) = []
          then (Inl (ErrText ''name and symbol are required''), [])
          else
            (case Image rq of
               None \<Rightarrow> (Inl (ErrText ''image and image filename are required''), [])
             | Some img \<Rightarrow>
                 if TrimSpace (ImageFilename rq) = []
                 then (Inl (ErrText ''image and image filename are required''), [])
                 else
                   let pr = pipe_body (producer rq img (new_upload bnd quota))
                   in (case newRequest L c ''POST'' ''token-launch/create-token-info'' (Some pr)
                              (FormDataContentType bnd) of
                         Inl err \<Rightarrow> (Inl err, [])
                       | Inr req \<Rightarrow>
                           (case do L c req (Some Decode) of
                              (Inl err, calls) \<Rightarrow> (Inl err, calls)
                            | (Inr r, calls) \<Rightarrow>
                                let env = filled \<lparr>env_Success = False, env_Response = None\<rparr> r
                                in if \<not> env_Success env
                                   then (Inl (ErrText ''unexpected response''), calls)
                                   else (case env_Response env of
                                           None \<Rightarrow> (Inl (ErrText ''unexpected response''), calls)
                                         | Some res \<Rightarrow> (Inr res, calls))))))"

definition CreateTokenLaunchConfig ::
  "lib \<Rightarrow> (CreateTokenLaunchConfigRequest \<Rightarrow> error + string) \<Rightarrow>
   (string \<Rightarrow> error + 'r option envelope) \<Rightarrow> client \<Rightarrow>
   CreateTokenLaunchConfigRequest option \<Rightarrow> (error + 'r) \<times> request list" where
  "CreateTokenLaunchConfig L Encode Decode c inp =
     (case inp of
        None \<Rightarrow> (Inl (ErrText ''launchWallet is required''), [])
      | Some rq \<Rightarrow>
          if TrimSpace (LaunchWallet rq) = []
          then (Inl (ErrText ''launchWallet is required''), [])
          else
            (case postJSON L Encode c ''token-launch/create-config'' (Some rq) (Some Decode) of
               (Inl err, calls) \<Rightarrow> (Inl err, calls)
             | (Inr r, calls) \<Rightarrow>
                 let env = filled \<lparr>env_Success = False, env_Response = None\<rparr> r
                 in if \<not> env_Success env then (Inl (ErrText ''unexpected response''), calls)
                    else (case env_Response env of
                            None \<Rightarrow> (Inl (ErrText ''unexpected response''), calls)
                          | Some res \<Rightarrow> (Inr res, calls))))"

definition CreateTokenLaunchTransaction ::
  "lib \<Rightarrow> (CreateTokenLaunchTxRequest \<Rightarrow> error + string) \<Rightarrow>
   (string \<Rightarrow> error + string envelope) \<Rightarrow> client \<Rightarrow>
   CreateTokenLaunchTxRequest option \<Rightarrow> (error + CreateTokenLaunchTxResult) \<times> request list" where
  "CreateTokenLaunchTransaction L Encode Decode c inp =
     (case inp of
        None \<Rightarrow> (Inl (ErrText ''nil request''), [])
      | Some rq \<Rightarrow>
          if TrimSpace (IPFS rq) = [] \<or> TrimSpace (TokenMint rq) = [] \<or>
             TrimSpace (Wallet rq) = [] \<or> TrimSpace (ConfigKey rq) = []
          then (Inl (ErrText ''ipfs, tokenMint, wallet, and configKey are required''), [])
          else
            (case postJSON L Encode c ''token-launch/create-launch-transaction'' (Some rq)
                    (Some Decode) of
               (Inl err, calls) \<Rightarrow> (Inl err, calls)
             | (Inr r, calls) \<Rightarrow>
                 let env = filled \<lparr>env_Success = False, env_Response = []\<rparr> r
                 in if \<not> env_Success env \<or> TrimSpace (env_Response env) = []
                    then (Inl (ErrText ''unexpected response''), calls)
                    else (Inr \<lparr>Transaction = env_Response env\<rparr>, calls)))"


section \<open>Notions used to state the properties\<close>

text \<open>
  The transport answers the request with a 2xx response whose body decodes to \<open>env\<close>.
\<close>

definition answered :: "client \<Rightarrow> request \<Rightarrow> (string \<Rightarrow> error + 'v) \<Rightarrow> 'v \<Rightarrow> bool" where
  "answered c req Decode env \<longleftrightarrow>
     (case HTTP c req of
        Inl err \<Rightarrow> False
      | Inr res \<Rightarrow> 200 \<le> StatusCode res \<and> StatusCode res < 300 \<and> Decode (ResBody res) = Inr env)"

text \<open>
  The pieces of the producer, named: the state after the six \<open>writeField\<close> calls, the
  header of the image part, and the way the goroutine leaves its body (\<open>None\<close> when it
  runs to the end of the function, \<open>Some err\<close> when it returns after
  \<open>pw.CloseWithError(err)\<close>).
\<close>

definition text_fields :: "CreateTokenInfoRequest \<Rightarrow> (string \<times> string) list" where
  "text_fields inp =
     [(''name'', Name inp), (''symbol'', Symbol inp), (''description'', Description inp),
      (''telegram'', Telegram inp), (''twitter'', Twitter inp), (''website'', Website inp)]"

fun write_fields :: "(string \<times> string) list \<Rightarrow> upload \<Rightarrow> upload" where
  "write_fields [] s = s"
| "write_fields ((k, v) # kvs) s = write_fields kvs (snd (writeField k v s))"

definition image_header :: "CreateTokenInfoRequest \<Rightarrow> (string \<times> string) list" where
  "image_header inp =
     [(''Content-Disposition'',
       ''form-data; name='' @ dquote @ ''image'' @ dquote @ ''; filename='' @ dquote
         @ ImageFilename inp @ dquote),
      (''Content-Type'',
       (if TrimSpace (ImageMIMEType inp) = [] then ''application/octet-stream''
        else ImageMIMEType inp))]"

definition producer_exit :: "CreateTokenInfoRequest \<Rightarrow> reader \<Rightarrow> upload \<Rightarrow> error option" where
  "producer_exit inp img s0 =
     (case mw_CreatePart (image_header inp) (write_fields (text_fields inp) s0) of
        (Some err, s7) \<Rightarrow> Some err
      | (None, s7) \<Rightarrow> fst (io_Copy (r_chunks img) (r_end img) s7))"

text \<open>
  The multipart encoding, written from the format: a part is the boundary line (after a
  line break, unless it is the first part), the header lines, an empty line and the
  content. \<open>sent_fields\<close> are the text fields that are not blank, and \<open>field_part\<close> is the
  part of a text field.
\<close>

definition part_bytes :: "string \<Rightarrow> bool \<Rightarrow> (string \<times> string) list \<Rightarrow> string \<Rightarrow> string" where
  "part_bytes bnd first h content =
     (if first then [] else CRLF) @ ''--'' @ bnd @ CRLF @ header_lines h @ CRLF @ content"

fun parts_bytes :: "string \<Rightarrow> bool \<Rightarrow> ((string \<times> string) list \<times> string) list \<Rightarrow> string" where
  "parts_bytes bnd first [] = []"
| "parts_bytes bnd first ((h, content) # ps) =
     part_bytes bnd first h content @ parts_bytes bnd False ps"

definition closing_boundary :: "string \<Rightarrow> string" where
  "closing_boundary bnd = CRLF @ ''--'' @ bnd @ ''--'' @ CRLF"

definition sent_fields :: "CreateTokenInfoRequest \<Rightarrow> (string \<times> string) list" where
  "sent_fields inp = filter (\<lambda>kv. TrimSpace (snd kv) \<noteq> []) (text_fields inp)"

definition field_part :: "string \<times> string \<Rightarrow> (string \<times> string) list \<times> string" where
  "field_part kv =
     ([(''Content-Disposition'', ''form-data; name='' @ dquote @ fst kv @ dquote)], snd kv)"

text \<open>
  \<open>flowing s\<close>: both ends of the pipe are open, the reader reads to the end, and the part
  created last, if any, is unfinished and has seen no write error. \<open>emit b s\<close> is \<open>s\<close> with
  the bytes \<open>b\<close> delivered to the reader.
\<close>

definition fresh_part :: part where
  "fresh_part = \<lparr>pt_closed = False, pt_we = None\<rparr>"

definition flowing :: "upload \<Rightarrow> bool" where
  "flowing s \<longleftrightarrow>
     p_werr (pw s) = None \<and> p_quota (pw s) = None \<and>
     (lastpart s = None \<or> lastpart s = Some fresh_part)"

definition emit :: "string \<Rightarrow> upload \<Rightarrow> upload" where
  "emit b s = s\<lparr>pw := (pw s)\<lparr>p_data := p_data (pw s) @ b\<rparr>\<rparr>"

text \<open>
  A transport that reports a failure whenever the body it is given does not end
  regularly, as \<open>net/http\<close> does when reading the request body fails.
\<close>

definition reports_body_errors :: "client \<Rightarrow> bool" where
  "reports_body_errors c \<longleftrightarrow>
     (\<forall>req b. Body req = Some b \<longrightarrow> b_end b \<noteq> Some EOF \<longrightarrow> isl (HTTP c req))"

section \<open>Example values\<close>

text \<open>Concrete inputs on which the properties below are instantiated.\<close>

definition body_empty_response :: string where
  \<open>body_empty_response = ''{"success":true,"response":""}''\<close>

definition body_no_response :: string where
  \<open>body_no_response = ''{"success":true}''\<close>

definition body_null_response :: string where
  \<open>body_null_response = ''{"success":true,"response":null}''\<close>

definition body_bad_mint :: string where
  \<open>body_bad_mint = ''{"success":false,"error":"bad mint"}''\<close>

definition body_success_with_error :: string where
  \<open>body_success_with_error = ''{"success":true,"error":"x"}''\<close>

definition example_lib :: lib where
  "example_lib =
     \<lparr>url_Parse =
        (\<lambda>s. if s = DefaultBaseURL
             then Inr \<lparr>Scheme = ''https'', Host = ''public-api-v2.bags.fm'', Path = ''/api/v1/''\<rparr>
             else Inl (ErrLib ''parse'')),
      NewRequest_error = (\<lambda>m u. None),
      Unmarshal_apiError =
        (\<lambda>s. if s = body_bad_mint
               then Inr \<lparr>ae_Success = False, ae_Message = ''bad mint'', ae_Status = 0\<rparr>
             else if s = body_success_with_error
               then Inr \<lparr>ae_Success = True, ae_Message = ''x'', ae_Status = 0\<rparr>
             else Inl (ErrLib ''invalid character'')),
      QueryEscape = (\<lambda>s. s)\<rparr>"

definition example_client :: "(request \<Rightarrow> error + response) \<Rightarrow> client" where
  "example_client t =
     \<lparr>HTTP = t, BaseURL = DefaultBaseURL, APIKey = ''key'', UserAgent = UserAgentDefault\<rparr>"

definition example_response :: "int \<Rightarrow> string \<Rightarrow> string \<Rightarrow> response" where
  "example_response code st b = \<lparr>StatusCode = code, Status = st, ResBody = b\<rparr>"

definition example_decode_string :: "string \<Rightarrow> error + string envelope" where
  "example_decode_string s =
     (if s = body_empty_response \<or> s = body_null_response
      then Inr \<lparr>env_Success = True, env_Response = []\<rparr>
      else Inl (ErrLib ''invalid character''))"

definition example_decode_list :: "string \<Rightarrow> error + string list envelope" where
  "example_decode_list s = Inl (ErrLib ''invalid character'')"

definition example_decode_ptr :: "string \<Rightarrow> error + string option envelope" where
  "example_decode_ptr s =
     (if s = body_no_response \<or> s = body_null_response
      then Inr \<lparr>env_Success = True, env_Response = None\<rparr>
      else Inl (ErrLib ''invalid character''))"

definition example_encode :: "'b \<Rightarrow> error + string" where
  "example_encode b = Inr ''{}''"

definition example_image :: reader where
  "example_image = \<lparr>r_chunks = [''PNG'', ''data''], r_end = EOF\<rparr>"

definition failing_image :: reader where
  "failing_image = \<lparr>r_chunks = [''PNG''], r_end = ErrLib ''read failed''\<rparr>"

definition example_info :: CreateTokenInfoRequest where
  "example_info =
     \<lparr>Name = ''Token'', Symbol = ''TKN'', Description = ''  '', Telegram = [],
      Twitter = ''@tkn'', Website = [], Image = Some example_image,
      ImageFilename = ''logo.png'', ImageMIMEType = []\<rparr>"

text \<open>A transport that fails when the request body ends with an error.\<close>

definition checking_transport :: "response \<Rightarrow> request \<Rightarrow> error + response" where
  "checking_transport res req =
     (case Body req of
        None \<Rightarrow> Inr res
      | Some b \<Rightarrow> if b_end b = Some EOF then Inr res else Inl (ErrLib ''request body failed''))"

definition example_config :: CreateTokenLaunchConfigRequest where
  "example_config = \<lparr>LaunchWallet = ''Wallet111''\<rparr>"

definition example_tx :: CreateTokenLaunchTxRequest where
  "example_tx =
     \<lparr>IPFS = ''ipfs://x'', TokenMint = ''Mint111'', Wallet = ''Wallet111'',
      InitialBuyLamports = 1000, ConfigKey = ''Config111''\<rparr>"

definition example_feeshare :: CreateFeeShareConfigRequest where
  "example_feeshare =
     \<lparr>WalletA = ''A111'', WalletB = ''B111'', WalletABps = 1000, WalletBBps = 9000,
      Payer = ''P111'', BaseMint = ''Mint111'', QuoteMint = ''So111''\<rparr>"

section \<open>Properties\<close>

subsection \<open>Auxiliary facts\<close>

lemma TrimSpace_examples:
  "TrimSpace ''mint'' = ''mint''"
  "TrimSpace UserAgentDefault = UserAgentDefault"
  "TrimSpace [] = []"
  "TrimSpace ''  '' = []"
  by code_simp+

lemma canon_keys:
  "CanonicalMIMEHeaderKey ''x-api-key'' = ''X-Api-Key''"
  "CanonicalMIMEHeaderKey ''Accept'' = ''Accept''"
  "CanonicalMIMEHeaderKey ''Content-Type'' = ''Content-Type''"
  "CanonicalMIMEHeaderKey ''User-Agent'' = ''User-Agent''"
  by code_simp+

lemma example_newRequest:
  "newRequest example_lib (example_client t) m rel b ct =
     Inr \<lparr>Method = m,
          URL = \<lparr>Scheme = ''https'', Host = ''public-api-v2.bags.fm'', Path = Join ''/api/v1'' rel\<rparr>,
          Header =
            (if ct \<noteq> [] then
               [''X-Api-Key'' \<mapsto> [''key''], ''Accept'' \<mapsto> [''application/json''],
                ''Content-Type'' \<mapsto> [ct], ''User-Agent'' \<mapsto> [''bags-go/0.1'']]
             else
               [''X-Api-Key'' \<mapsto> [''key''], ''Accept'' \<mapsto> [''application/json''],
                ''User-Agent'' \<mapsto> [''bags-go/0.1'']]),
          Body = b\<rparr>"
  by (simp add: newRequest_def example_lib_def example_client_def Header_Set_def canon_keys
      TrimSpace_examples TrimSuffix_def Let_def) (simp add: UserAgentDefault_def)

lemma do_answered:
  "answered c req Decode env \<Longrightarrow> do L c req (Some Decode) = (Inr (Some env), [req])"
  by (auto simp: answered_def do_def split: sum.splits)

subsection \<open>Path joining\<close>

lemma split_slash_ne: "split_slash s \<noteq> []"
  by (induction s) (auto split: list.splits)

lemma split_slash_append: "split_slash (a @ CHR ''/'' # b) = split_slash a @ split_slash b"
  by (induction a) (auto split: list.splits simp: split_slash_ne)

text \<open>
  Elements that never climb above their start leave the elements written before them
  in place.
\<close>

lemma fold_within:
  "stays_within (length ext) es \<Longrightarrow> dd \<le> length pre \<Longrightarrow>
   \<exists>ext'. foldl (clean_step r) (pre @ ext, dd) es = (pre @ ext', dd)"
proof (induction es arbitrary: ext)
  case Nil
  then show ?case by simp
next
  case (Cons e es)
  show ?case
  proof (cases "e = [] \<or> e = ''.''")
    case True
    with Cons show ?thesis by auto
  next
    case False
    note plain = False
    show ?thesis
    proof (cases "e = ''..''")
      case True
      with Cons.prems have pos: "0 < length ext" and "stays_within (length ext - 1) es"
        by auto
      then have "stays_within (length (butlast ext)) es" by simp
      from Cons.IH[OF this Cons.prems(2)] obtain ext' where
        "foldl (clean_step r) (pre @ butlast ext, dd) es = (pre @ ext', dd)" by blast
      moreover have "dd < length (pre @ ext)"
        using pos Cons.prems(2) by (cases ext) auto
      then have "clean_step r (pre @ ext, dd) e = (pre @ butlast ext, dd)"
        using True pos by (simp add: butlast_append)
      ultimately show ?thesis by auto
    next
      case False
      with plain Cons.prems have "stays_within (length (ext @ [e])) es" by auto
      from Cons.IH[OF this Cons.prems(2)] obtain ext' where
        "foldl (clean_step r) (pre @ ext @ [e], dd) es = (pre @ ext', dd)" by auto
      moreover have "clean_step r (pre @ ext, dd) e = (pre @ ext @ [e], dd)"
        using False plain by auto
      ultimately show ?thesis by auto
    qed
  qed
qed

lemma join_slash_append:
  "xs \<noteq> [] \<Longrightarrow> ys \<noteq> [] \<Longrightarrow> join_slash (xs @ ys) = join_slash xs @ ''/'' @ join_slash ys"
  by (induction xs rule: join_slash.induct) (auto simp: neq_Nil_conv)

lemma render_under: "under_prefix (render True pre) (render True (pre @ ext))"
proof (cases "ext = []")
  case True
  then show ?thesis by (simp add: under_prefix_def)
next
  case False
  note ext = False
  show ?thesis
  proof (cases "pre = []")
    case True
    then show ?thesis by (simp add: under_prefix_def render_def)
  next
    case False
    with ext show ?thesis
      by (simp add: under_prefix_def render_def join_slash_append)
  qed
qed

lemma rooted_dotdot: "snd (foldl (clean_step True) (out, 0) es) = 0"
  by (induction es arbitrary: out) auto

lemma Join_under:
  assumes b: "b = CHR ''/'' # b'" and sw: "stays_within 0 (split_slash rel)"
  shows "under_prefix (Clean b) (Join b rel)"
proof -
  obtain pre where pre: "foldl (clean_step True) ([], 0) (split_slash b) = (pre, 0)"
    using rooted_dotdot[of "[]" "split_slash b"]
    by (cases "foldl (clean_step True) ([], 0) (split_slash b)") auto
  from fold_within[of "[]" "split_slash rel" 0 pre True] sw
  obtain ext' where ext: "foldl (clean_step True) (pre, 0) (split_slash rel) = (pre @ ext', 0)"
    by auto
  have "Clean b = render True pre"
    using b pre by (simp add: Clean_def)
  moreover have "Join b rel = render True (pre @ ext')"
    using b pre ext by (simp add: Join_def Clean_def split_slash_append)
  ultimately show ?thesis by (simp add: render_under)
qed

text \<open>
  C2 (as stated, refuted). Joining the relative path \<open>../../etc\<close> to the default base
  path \<open>/api/v1/\<close> gives \<open>/etc\<close>, which is not under \<open>/api/v1\<close>: \<open>path.Join\<close> resolves
  \<open>..\<close> elements lexically and \<open>newRequest\<close> does not restrict them.
\<close>

theorem newRequest_path_escapes:
  "Path (URL (projr (newRequest example_lib (example_client (\<lambda>r. Inl EOF)) ''GET''
      ''../../etc'' None []))) = ''/etc''
   \<and> \<not> under_prefix (Clean (TrimSuffix ''/api/v1/'' ''/'')) ''/etc''"
proof -
  have "Join ''/api/v1'' ''../../etc'' = ''/etc''" by code_simp
  moreover have "\<not> under_prefix (Clean (TrimSuffix ''/api/v1/'' ''/'')) ''/etc''" by code_simp
  ultimately show ?thesis by (simp add: example_newRequest)
qed

text \<open>
  C2 (amended). For a base URL whose path, after the trailing slash is trimmed, is rooted,
  and for every relative path, with or without a leading separator, whose \<open>..\<close> elements
  never climb above the point where the relative path starts (in particular every relative
  path without \<open>..\<close> elements), the path of the request URL built by \<open>newRequest\<close> is the
  cleaned base path or continues it after a separator.
\<close>

theorem newRequest_path_under_base:
  assumes "newRequest L c method relPath body contentType = Inr req"
    and "url_Parse L (BaseURL c) = Inr base"
    and "TrimSuffix (Path base) ''/'' = CHR ''/'' # b"
    and "stays_within 0 (split_slash relPath)"
  shows "under_prefix (Clean (TrimSuffix (Path base) ''/'')) (Path (URL req))"
proof -
  have "Path (URL req) = Join (TrimSuffix (Path base) ''/'') relPath"
    using assms(1,2) by (auto simp: newRequest_def Let_def split: option.splits)
  with Join_under[OF assms(3,4)] show ?thesis by simp
qed

theorem newRequest_path_under_base_witness:
  "under_prefix (Clean (TrimSuffix ''/api/v1/'' ''/''))
     (Path (URL (projr (newRequest example_lib (example_client (\<lambda>r. Inl EOF)) ''GET''
        ''/token-launch/x/../ping'' None []))))"
proof -
  let ?c = "example_client (\<lambda>r. Inl EOF)"
  let ?nr = "newRequest example_lib ?c ''GET'' ''/token-launch/x/../ping'' None []"
  let ?base = "\<lparr>Scheme = ''https'', Host = ''public-api-v2.bags.fm'', Path = ''/api/v1/''\<rparr>"
  have h1: "?nr = Inr (projr ?nr)" by (simp add: example_newRequest)
  have h2: "url_Parse example_lib (BaseURL ?c) = Inr ?base"
    by (simp add: example_lib_def example_client_def)
  have h3: "TrimSuffix (Path ?base) ''/'' = CHR ''/'' # ''api/v1''" by code_simp
  have h4: "stays_within 0 (split_slash ''/token-launch/x/../ping'')" by code_simp
  show ?thesis using newRequest_path_under_base[OF h1 h2 h3 h4] by simp
qed


subsection \<open>Request headers\<close>

text \<open>
  C9 (as stated, refuted). A client whose \<open>UserAgent\<close> is blank gets a request without a
  \<open>User-Agent\<close> header: \<open>newRequest\<close> sets the header only when the trimmed value is not
  empty.
\<close>

theorem newRequest_no_user_agent:
  "\<not> isl (newRequest example_lib ((example_client (\<lambda>r. Inl EOF))\<lparr>UserAgent := ''  ''\<rparr>)
            ''GET'' ''ping'' None [])
   \<and> Header (projr (newRequest example_lib ((example_client (\<lambda>r. Inl EOF))\<lparr>UserAgent := ''  ''\<rparr>)
                     ''GET'' ''ping'' None []))
        ''User-Agent'' = None"
  by (simp add: newRequest_def example_lib_def example_client_def Header_Set_def canon_keys
      TrimSpace_examples Let_def)

text \<open>
  C9 (amended). Every request built by \<open>newRequest\<close> carries the API key under
  \<open>x-api-key\<close> (stored under the canonical form of that name) and \<open>Accept:
  application/json\<close>; it carries \<open>Content-Type\<close> with the given value exactly when the
  content type is not empty, whatever the method; and it carries \<open>User-Agent\<close>, with the
  trimmed configured value, exactly when the configured value is not blank.
\<close>

theorem newRequest_headers:
  assumes "newRequest L c method relPath body contentType = Inr req"
  shows "Header req ''X-Api-Key'' = Some [APIKey c]
       \<and> Header req ''Accept'' = Some [''application/json'']
       \<and> Header req ''Content-Type'' = (if contentType \<noteq> [] then Some [contentType] else None)
       \<and> Header req ''User-Agent'' =
           (if TrimSpace (UserAgent c) \<noteq> [] then Some [TrimSpace (UserAgent c)] else None)"
  using assms
  by (auto simp: newRequest_def Header_Set_def canon_keys Let_def split: sum.splits option.splits)

theorem newRequest_headers_witness:
  "Header (projr (newRequest example_lib (example_client (\<lambda>r. Inl EOF)) ''POST''
        ''token-launch/create-config'' None ''application/json'')) ''X-Api-Key'' = Some [''key'']
   \<and> Header (projr (newRequest example_lib (example_client (\<lambda>r. Inl EOF)) ''POST''
        ''token-launch/create-config'' None ''application/json'')) ''User-Agent''
       = Some [''bags-go/0.1'']"
proof -
  let ?c = "example_client (\<lambda>r. Inl EOF)"
  let ?nr = "newRequest example_lib ?c ''POST'' ''token-launch/create-config'' None
               ''application/json''"
  have h: "?nr = Inr (projr ?nr)" by (simp add: example_newRequest)
  show ?thesis using newRequest_headers[OF h]
    by (simp add: example_client_def TrimSpace_examples) (simp add: UserAgentDefault_def)
qed

subsection \<open>Responses that are not 2xx\<close>

lemma bodySnippet_limit:
  "bodySnippet (take (2 ^ 20) b) = (if length b > 512 then take 512 b @ snippet_mark else b)"
proof (cases "length b > 512")
  case True
  then have "length (take (2 ^ 20) b) > 512" by simp
  moreover have "take 512 (take (2 ^ 20) b) = take 512 b" by (simp add: min_def)
  ultimately show ?thesis using True by (simp add: bodySnippet_def)
next
  case False
  then have "take (2 ^ 20) b = b" by simp
  then show ?thesis using False by (simp add: bodySnippet_def)
qed

text \<open>
  C3. When the response is not 2xx and the body (the first MiB that \<open>do\<close> reads of it)
  decodes into an \<open>apiError\<close>, \<open>do\<close> returns the structured error exactly when the decoded
  payload has \<open>success = false\<close> or a message that is not empty, so also for success = true
  together with a message; otherwise it returns the generic error. In the structured error
  a status of 0 (the field was omitted) is replaced by the status code of the response.
\<close>

theorem do_structured_error:
  assumes "HTTP c req = Inr res"
    and "StatusCode res < 200 \<or> StatusCode res \<ge> 300"
    and "Unmarshal_apiError L (take (2 ^ 20) (ResBody res)) = Inr ae"
  shows "fst (do L c req v) =
     (if \<not> ae_Success ae \<or> ae_Message ae \<noteq> [] then
        Inl (ErrAPI (ae\<lparr>ae_Status :=
                          (if ae_Status ae = 0 then StatusCode res else ae_Status ae)\<rparr>))
      else Inl (ErrText (''bags api error: '' @ Status res @ '': '' @
                  bodySnippet (take (2 ^ 20) (ResBody res)))))"
  using assms by (auto simp: do_def Let_def)

theorem do_structured_error_witness:
  "fst (do example_lib
          (example_client (\<lambda>r. Inr (example_response 404 ''404 Not Found'' body_success_with_error)))
          \<lparr>Method = ''GET'', URL = \<lparr>Scheme = ''https'', Host = ''h'', Path = ''/p''\<rparr>,
            Header = Map.empty, Body = None\<rparr>
          (Some example_decode_string))
   = Inl (ErrAPI \<lparr>ae_Success = True, ae_Message = ''x'', ae_Status = 404\<rparr>)"
proof -
  let ?res = "example_response 404 ''404 Not Found'' body_success_with_error"
  let ?c = "example_client (\<lambda>r. Inr ?res)"
  let ?req = "\<lparr>Method = ''GET'', URL = \<lparr>Scheme = ''https'', Host = ''h'', Path = ''/p''\<rparr>,
               Header = Map.empty, Body = None\<rparr>"
  have h1: "HTTP ?c ?req = Inr ?res" by (simp add: example_client_def)
  have h2: "StatusCode ?res < 200 \<or> StatusCode ?res \<ge> 300" by (simp add: example_response_def)
  have len: "length body_success_with_error \<le> 2 ^ 20"
    by (simp add: body_success_with_error_def)
  have neq: "body_success_with_error \<noteq> body_bad_mint"
    by (simp add: body_success_with_error_def body_bad_mint_def)
  have h3: "Unmarshal_apiError example_lib (take (2 ^ 20) (ResBody ?res))
              = Inr \<lparr>ae_Success = True, ae_Message = ''x'', ae_Status = 0\<rparr>"
    using len neq by (simp add: example_response_def example_lib_def)
  show ?thesis
    using do_structured_error[OF h1 h2 h3, of "Some example_decode_string"]
    by (simp add: example_response_def)
qed

text \<open>
  C7. When the response is not 2xx and the body does not decode into an \<open>apiError\<close>, or
  decodes into one with \<open>success = true\<close> and an empty message, \<open>do\<close> returns the generic
  error: its text holds the status line and the body snippet. The snippet is the whole
  body when that has at most 512 bytes and otherwise its first 512 bytes followed by the
  cut marker; a longer body is cut, it does not make the call fail in another way.
\<close>

theorem do_generic_error:
  assumes "HTTP c req = Inr res"
    and "StatusCode res < 200 \<or> StatusCode res \<ge> 300"
    and "case Unmarshal_apiError L (take (2 ^ 20) (ResBody res)) of
           Inl err \<Rightarrow> True
         | Inr ae \<Rightarrow> ae_Success ae \<and> ae_Message ae = []"
  shows "\<exists>snip.
           do L c req v
             = (Inl (ErrText (''bags api error: '' @ Status res @ '': '' @ snip)), [req])
           \<and> snip = (if length (ResBody res) > 512 then take 512 (ResBody res) @ snippet_mark
                     else ResBody res)
           \<and> length snip \<le> 512 + length snippet_mark"
proof -
  let ?snip = "bodySnippet (take (2 ^ 20) (ResBody res))"
  have run: "do L c req v
               = (Inl (ErrText (''bags api error: '' @ Status res @ '': '' @ ?snip)), [req])"
    using assms by (auto simp: do_def Let_def split: sum.splits)
  have "length ?snip \<le> 512 + length snippet_mark"
    unfolding bodySnippet_limit by simp
  with run bodySnippet_limit[of "ResBody res"] show ?thesis by simp
qed

theorem do_generic_error_witness:
  "fst (do example_lib
          (example_client (\<lambda>r. Inr (example_response 502 ''502 Bad Gateway'' (replicate 600 CHR ''A''))))
          \<lparr>Method = ''GET'', URL = \<lparr>Scheme = ''https'', Host = ''h'', Path = ''/p''\<rparr>,
            Header = Map.empty, Body = None\<rparr>
          (Some example_decode_string))
   = Inl (ErrText (''bags api error: 502 Bad Gateway: '' @ replicate 512 CHR ''A'' @ snippet_mark))"
proof -
  let ?body = "replicate 600 CHR ''A''"
  let ?res = "example_response 502 ''502 Bad Gateway'' ?body"
  let ?c = "example_client (\<lambda>r. Inr ?res)"
  let ?req = "\<lparr>Method = ''GET'', URL = \<lparr>Scheme = ''https'', Host = ''h'', Path = ''/p''\<rparr>,
               Header = Map.empty, Body = None\<rparr>"
  have h1: "HTTP ?c ?req = Inr ?res" by (simp add: example_client_def)
  have h2: "StatusCode ?res < 200 \<or> StatusCode ?res \<ge> 300" by (simp add: example_response_def)
  have l1: "length ?body \<noteq> length body_bad_mint"
    by (simp add: body_bad_mint_def)
  have l2: "length ?body \<noteq> length body_success_with_error"
    by (simp add: body_success_with_error_def)
  have n1: "?body \<noteq> body_bad_mint" using l1 by metis
  have n2: "?body \<noteq> body_success_with_error" using l2 by metis
  have h3: "case Unmarshal_apiError example_lib (take (2 ^ 20) (ResBody ?res)) of
              Inl err \<Rightarrow> True
            | Inr ae \<Rightarrow> ae_Success ae \<and> ae_Message ae = []"
    using n1 n2 by (simp add: example_response_def example_lib_def)
  show ?thesis
    using do_generic_error[OF h1 h2 h3, of "Some example_decode_string"]
    by (auto simp: example_response_def)
qed

subsection \<open>Envelopes of 2xx responses\<close>

lemma postJSON_answered:
  assumes "Encode rq = Inr buf"
    and "newRequest L c ''POST'' rel (Some \<lparr>b_data = buf, b_end = Some EOF\<rparr>) ''application/json'' = Inr req"
    and "answered c req Decode env"
  shows "postJSON L Encode c rel (Some rq) (Some Decode) = (Inr (Some env), [req])"
  using assms by (simp add: postJSON_def do_answered)

text \<open>
  C4. When the transport answers with a 2xx response whose envelope has \<open>success = true\<close>
  and an empty payload, the operation returns the error "unexpected response" and no
  value: for a blank wallet address in \<open>GetFeeShareWallet\<close>, a blank transaction in
  \<open>CreateTokenLaunchTransaction\<close>, and a nil response object in
  \<open>CreateTokenLaunchConfig\<close>, \<open>CreateFeeShareConfig\<close> and \<open>CreateTokenInfoAndMetadata\<close>.
  Each case takes a request that passes the local validation and is built without error.
\<close>

theorem empty_payload_unexpected_response:
  fixes envS :: "string envelope" and envP :: "'r option envelope"
  assumes "env_Success envS" and "TrimSpace (env_Response envS) = []"
    and "env_Success envP" and "env_Response envP = None"
  shows
    "(TrimSpace twitterUsername \<noteq> [] \<longrightarrow>
      newRequest L c ''GET''
        (''token-launch/fee-share/wallet/twitter?twitterUsername=''
           @ QueryEscape L (TrimSpace twitterUsername)) None [] = Inr reqW \<longrightarrow>
      answered c reqW DecS envS \<longrightarrow>
      GetFeeShareWallet L DecS c twitterUsername = (Inl (ErrText ''unexpected response''), [reqW]))
   \<and> (TrimSpace (IPFS lt) \<noteq> [] \<and> TrimSpace (TokenMint lt) \<noteq> [] \<and> TrimSpace (Wallet lt) \<noteq> [] \<and>
      TrimSpace (ConfigKey lt) \<noteq> [] \<longrightarrow>
      EncT lt = Inr bufT \<longrightarrow>
      newRequest L c ''POST'' ''token-launch/create-launch-transaction''
        (Some \<lparr>b_data = bufT, b_end = Some EOF\<rparr>) ''application/json'' = Inr reqT \<longrightarrow>
      answered c reqT DecS envS \<longrightarrow>
      CreateTokenLaunchTransaction L EncT DecS c (Some lt)
        = (Inl (ErrText ''unexpected response''), [reqT]))
   \<and> (TrimSpace (LaunchWallet lc) \<noteq> [] \<longrightarrow>
      EncC lc = Inr bufC \<longrightarrow>
      newRequest L c ''POST'' ''token-launch/create-config''
        (Some \<lparr>b_data = bufC, b_end = Some EOF\<rparr>) ''application/json'' = Inr reqC \<longrightarrow>
      answered c reqC DecP envP \<longrightarrow>
      CreateTokenLaunchConfig L EncC DecP c (Some lc)
        = (Inl (ErrText ''unexpected response''), [reqC]))
   \<and> (TrimSpace (WalletA fs) \<noteq> [] \<and> TrimSpace (WalletB fs) \<noteq> [] \<and> TrimSpace (Payer fs) \<noteq> [] \<and>
      TrimSpace (BaseMint fs) \<noteq> [] \<and> TrimSpace (QuoteMint fs) \<noteq> [] \<longrightarrow>
      EncF fs = Inr bufF \<longrightarrow>
      newRequest L c ''POST'' ''token-launch/fee-share/create-config''
        (Some \<lparr>b_data = bufF, b_end = Some EOF\<rparr>) ''application/json'' = Inr reqF \<longrightarrow>
      answered c reqF DecP envP \<longrightarrow>
      CreateFeeShareConfig L EncF DecP c (Some fs)
        = (Inl (ErrText ''unexpected response''), [reqF]))
   \<and> (TrimSpace (Name ti) \<noteq> [] \<and> TrimSpace (Symbol ti) \<noteq> [] \<and> Image ti = Some img \<and>
      TrimSpace (ImageFilename ti) \<noteq> [] \<longrightarrow>
      newRequest L c ''POST'' ''token-launch/create-token-info''
        (Some (pipe_body (producer ti img (new_upload bnd quota)))) (FormDataContentType bnd)
        = Inr reqI \<longrightarrow>
      answered c reqI DecP envP \<longrightarrow>
      CreateTokenInfoAndMetadata L DecP bnd quota c (Some ti)
        = (Inl (ErrText ''unexpected response''), [reqI]))"
proof (intro conjI impI)
  assume "TrimSpace twitterUsername \<noteq> []"
    and "newRequest L c ''GET''
        (''token-launch/fee-share/wallet/twitter?twitterUsername=''
           @ QueryEscape L (TrimSpace twitterUsername)) None [] = Inr reqW"
    and "answered c reqW DecS envS"
  then show "GetFeeShareWallet L DecS c twitterUsername = (Inl (ErrText ''unexpected response''), [reqW])"
    using assms(1,2) by (simp add: GetFeeShareWallet_def Let_def do_answered filled_def)
next
  assume "TrimSpace (IPFS lt) \<noteq> [] \<and> TrimSpace (TokenMint lt) \<noteq> [] \<and> TrimSpace (Wallet lt) \<noteq> [] \<and>
      TrimSpace (ConfigKey lt) \<noteq> []"
    and "EncT lt = Inr bufT"
    and "newRequest L c ''POST'' ''token-launch/create-launch-transaction''
        (Some \<lparr>b_data = bufT, b_end = Some EOF\<rparr>) ''application/json'' = Inr reqT"
    and "answered c reqT DecS envS"
  then show "CreateTokenLaunchTransaction L EncT DecS c (Some lt)
        = (Inl (ErrText ''unexpected response''), [reqT])"
    using assms(1,2)
    by (simp add: CreateTokenLaunchTransaction_def Let_def postJSON_answered filled_def)
next
  assume "TrimSpace (LaunchWallet lc) \<noteq> []"
    and "EncC lc = Inr bufC"
    and "newRequest L c ''POST'' ''token-launch/create-config''
        (Some \<lparr>b_data = bufC, b_end = Some EOF\<rparr>) ''application/json'' = Inr reqC"
    and "answered c reqC DecP envP"
  then show "CreateTokenLaunchConfig L EncC DecP c (Some lc)
        = (Inl (ErrText ''unexpected response''), [reqC])"
    using assms(3,4)
    by (simp add: CreateTokenLaunchConfig_def Let_def postJSON_answered filled_def)
next
  assume "TrimSpace (WalletA fs) \<noteq> [] \<and> TrimSpace (WalletB fs) \<noteq> [] \<and> TrimSpace (Payer fs) \<noteq> [] \<and>
      TrimSpace (BaseMint fs) \<noteq> [] \<and> TrimSpace (QuoteMint fs) \<noteq> []"
    and "EncF fs = Inr bufF"
    and "newRequest L c ''POST'' ''token-launch/fee-share/create-config''
        (Some \<lparr>b_data = bufF, b_end = Some EOF\<rparr>) ''application/json'' = Inr reqF"
    and "answered c reqF DecP envP"
  then show "CreateFeeShareConfig L EncF DecP c (Some fs)
        = (Inl (ErrText ''unexpected response''), [reqF])"
    using assms(3,4)
    by (simp add: CreateFeeShareConfig_def Let_def postJSON_answered filled_def)
next
  assume "TrimSpace (Name ti) \<noteq> [] \<and> TrimSpace (Symbol ti) \<noteq> [] \<and> Image ti = Some img \<and>
      TrimSpace (ImageFilename ti) \<noteq> []"
    and "newRequest L c ''POST'' ''token-launch/create-token-info''
        (Some (pipe_body (producer ti img (new_upload bnd quota)))) (FormDataContentType bnd)
        = Inr reqI"
    and "answered c reqI DecP envP"
  then show "CreateTokenInfoAndMetadata L DecP bnd quota c (Some ti)
        = (Inl (ErrText ''unexpected response''), [reqI])"
    using assms(3,4)
    by (simp add: CreateTokenInfoAndMetadata_def Let_def do_answered filled_def)
qed


lemma example_nonblank:
  "TrimSpace ''alice123'' \<noteq> []"
  "TrimSpace (IPFS example_tx) \<noteq> []" "TrimSpace (TokenMint example_tx) \<noteq> []"
  "TrimSpace (Wallet example_tx) \<noteq> []" "TrimSpace (ConfigKey example_tx) \<noteq> []"
  "TrimSpace (LaunchWallet example_config) \<noteq> []"
  "TrimSpace (WalletA example_feeshare) \<noteq> []" "TrimSpace (WalletB example_feeshare) \<noteq> []"
  "TrimSpace (Payer example_feeshare) \<noteq> []" "TrimSpace (BaseMint example_feeshare) \<noteq> []"
  "TrimSpace (QuoteMint example_feeshare) \<noteq> []"
  "TrimSpace (Name example_info) \<noteq> []" "TrimSpace (Symbol example_info) \<noteq> []"
  "TrimSpace (ImageFilename example_info) \<noteq> []"
  by code_simp+

theorem empty_payload_unexpected_response_witness:
  "fst (GetFeeShareWallet example_lib example_decode_string
          (example_client (\<lambda>r. Inr (example_response 200 ''200 OK'' body_null_response)))
          ''alice123'') = Inl (ErrText ''unexpected response'')
   \<and> fst (CreateTokenLaunchTransaction example_lib example_encode example_decode_string
          (example_client (\<lambda>r. Inr (example_response 200 ''200 OK'' body_null_response)))
          (Some example_tx)) = Inl (ErrText ''unexpected response'')
   \<and> fst (CreateTokenLaunchConfig example_lib example_encode example_decode_ptr
          (example_client (\<lambda>r. Inr (example_response 200 ''200 OK'' body_null_response)))
          (Some example_config)) = Inl (ErrText ''unexpected response'')
   \<and> fst (CreateFeeShareConfig example_lib example_encode example_decode_ptr
          (example_client (\<lambda>r. Inr (example_response 200 ''200 OK'' body_null_response)))
          (Some example_feeshare)) = Inl (ErrText ''unexpected response'')
   \<and> fst (CreateTokenInfoAndMetadata example_lib example_decode_ptr ''B'' None
          (example_client (\<lambda>r. Inr (example_response 200 ''200 OK'' body_null_response)))
          (Some example_info)) = Inl (ErrText ''unexpected response'')"
proof -
  let ?c = "example_client (\<lambda>r. Inr (example_response 200 ''200 OK'' body_null_response))"
  let ?envS = "\<lparr>env_Success = True, env_Response = []\<rparr> :: string envelope"
  let ?envP = "\<lparr>env_Success = True, env_Response = None\<rparr> :: string option envelope"
  have a: "env_Success ?envS" "TrimSpace (env_Response ?envS) = []"
    "env_Success ?envP" "env_Response ?envP = None"
    by (simp_all add: TrimSpace_examples)
  have ansS: "answered ?c req example_decode_string ?envS" for req
    by (simp add: answered_def example_client_def example_response_def example_decode_string_def)
  have ansP: "answered ?c req example_decode_ptr ?envP" for req
    by (simp add: answered_def example_client_def example_response_def example_decode_ptr_def)
  have nr: "newRequest example_lib ?c m rel b ct = Inr (projr (newRequest example_lib ?c m rel b ct))"
    for m rel b ct
    by (simp add: example_newRequest)
  have img: "Image example_info = Some example_image" by (simp add: example_info_def)
  have enc: "example_encode x = Inr ''{}''" for x :: 'x by (simp add: example_encode_def)
  let ?rW = "projr (newRequest example_lib ?c ''GET''
        (''token-launch/fee-share/wallet/twitter?twitterUsername=''
           @ QueryEscape example_lib (TrimSpace ''alice123'')) None [])"
  let ?rT = "projr (newRequest example_lib ?c ''POST'' ''token-launch/create-launch-transaction''
        (Some \<lparr>b_data = ''{}'', b_end = Some EOF\<rparr>) ''application/json'')"
  let ?rC = "projr (newRequest example_lib ?c ''POST'' ''token-launch/create-config''
        (Some \<lparr>b_data = ''{}'', b_end = Some EOF\<rparr>) ''application/json'')"
  let ?rF = "projr (newRequest example_lib ?c ''POST'' ''token-launch/fee-share/create-config''
        (Some \<lparr>b_data = ''{}'', b_end = Some EOF\<rparr>) ''application/json'')"
  let ?rI = "projr (newRequest example_lib ?c ''POST'' ''token-launch/create-token-info''
        (Some (pipe_body (producer example_info example_image (new_upload ''B'' None))))
        (FormDataContentType ''B''))"
  note inst = empty_payload_unexpected_response[OF a, where reqW = ?rW and reqT = ?rT and reqC = ?rC and reqF = ?rF and reqI = ?rI and L = example_lib and c = ?c and DecS = example_decode_string
      and DecP = example_decode_ptr and twitterUsername = "''alice123''" and lt = example_tx
      and lc = example_config and fs = example_feeshare and ti = example_info
      and img = example_image and bnd = "''B''" and quota = None
      and EncT = example_encode and EncC = example_encode and EncF = example_encode
      and bufT = "''{}''" and bufC = "''{}''" and bufF = "''{}''"]
  show ?thesis
    using inst example_nonblank img ansS ansP nr
    by (simp add: example_encode_def)
qed

text \<open>
  C10. \<open>GetTokenLifetimeFees\<close> checks only the success flag: when the transport answers
  with a 2xx response whose envelope has \<open>success = true\<close> and an empty response string,
  it returns the empty string and no error.
\<close>

theorem GetTokenLifetimeFees_empty_response:
  assumes "TrimSpace tokenMint \<noteq> []"
    and "newRequest L c ''GET''
           (''token-launch/lifetime-fees?tokenMint='' @ QueryEscape L tokenMint) None [] = Inr req"
    and "answered c req Decode \<lparr>env_Success = True, env_Response = []\<rparr>"
  shows "GetTokenLifetimeFees L Decode c tokenMint = (Inr [], [req])"
  using assms by (simp add: GetTokenLifetimeFees_def do_answered filled_def)

theorem GetTokenLifetimeFees_empty_response_witness:
  "fst (GetTokenLifetimeFees example_lib example_decode_string
          (example_client (\<lambda>r. Inr (example_response 200 ''200 OK'' body_empty_response)))
          ''mint'') = Inr []"
proof -
  let ?c = "example_client (\<lambda>r. Inr (example_response 200 ''200 OK'' body_empty_response))"
  let ?rel = "''token-launch/lifetime-fees?tokenMint='' @ QueryEscape example_lib ''mint''"
  let ?req = "projr (newRequest example_lib ?c ''GET'' ?rel None [])"
  have h1: "TrimSpace ''mint'' \<noteq> []" by (simp add: TrimSpace_examples)
  have h2: "newRequest example_lib ?c ''GET'' ?rel None [] = Inr ?req"
    by (simp add: example_newRequest)
  have h3: "answered ?c ?req example_decode_string \<lparr>env_Success = True, env_Response = []\<rparr>"
    by (simp add: answered_def example_client_def example_response_def example_decode_string_def)
  show ?thesis using GetTokenLifetimeFees_empty_response[OF h1 h2 h3] by simp
qed

subsection \<open>Local validation\<close>

text \<open>
  C8. A request with a mandatory field that is empty or blank after trimming is rejected
  with the operation's validation error, and no request is handed to the transport (the
  list of requests is empty, whatever the client and its transport are): a blank token
  mint or user name in the three lookups, a blank wallet, payer or mint in
  \<open>CreateFeeShareConfig\<close>, a blank name or symbol, a nil image or a blank file name in
  \<open>CreateTokenInfoAndMetadata\<close>, a blank launch wallet in \<open>CreateTokenLaunchConfig\<close>, and
  a blank ipfs, token mint, wallet or config key in \<open>CreateTokenLaunchTransaction\<close>.
\<close>

theorem validation_before_transport:
  "(TrimSpace tokenMint = [] \<longrightarrow>
      GetTokenLifetimeFees L DecS c tokenMint = (Inl (ErrText ''tokenMint is required''), [])
      \<and> GetTokenLaunchCreators L DecL c tokenMint = (Inl (ErrText ''tokenMint is required''), []))
   \<and> (TrimSpace twitterUsername = [] \<longrightarrow>
      GetFeeShareWallet L DecS c twitterUsername
        = (Inl (ErrText ''twitterUsername is required''), []))
   \<and> (TrimSpace (WalletA fs) = [] \<or> TrimSpace (WalletB fs) = [] \<or> TrimSpace (Payer fs) = [] \<or>
      TrimSpace (BaseMint fs) = [] \<or> TrimSpace (QuoteMint fs) = [] \<longrightarrow>
      CreateFeeShareConfig L EncF DecP c (Some fs)
        = (Inl (ErrText ''walletA, walletB, payer, baseMint, and quoteMint are required''), []))
   \<and> (TrimSpace (Name ti) = [] \<or> TrimSpace (Symbol ti) = [] \<longrightarrow>
      CreateTokenInfoAndMetadata L DecP bnd quota c (Some ti)
        = (Inl (ErrText ''name and symbol are required''), []))
   \<and> (TrimSpace (Name tj) \<noteq> [] \<and> TrimSpace (Symbol tj) \<noteq> [] \<and>
      (Image tj = None \<or> TrimSpace (ImageFilename tj) = []) \<longrightarrow>
      CreateTokenInfoAndMetadata L DecP bnd quota c (Some tj)
        = (Inl (ErrText ''image and image filename are required''), []))
   \<and> (TrimSpace (LaunchWallet lc) = [] \<longrightarrow>
      CreateTokenLaunchConfig L EncC DecP c (Some lc)
        = (Inl (ErrText ''launchWallet is required''), []))
   \<and> (TrimSpace (IPFS lt) = [] \<or> TrimSpace (TokenMint lt) = [] \<or> TrimSpace (Wallet lt) = [] \<or>
      TrimSpace (ConfigKey lt) = [] \<longrightarrow>
      CreateTokenLaunchTransaction L EncT DecS c (Some lt)
        = (Inl (ErrText ''ipfs, tokenMint, wallet, and configKey are required''), []))"
  by (auto simp: GetTokenLifetimeFees_def GetTokenLaunchCreators_def GetFeeShareWallet_def
      CreateFeeShareConfig_def CreateTokenInfoAndMetadata_def CreateTokenLaunchConfig_def
      CreateTokenLaunchTransaction_def split: option.splits)

lemma example_nonblank_fields:
  "TrimSpace (Name example_info) \<noteq> []" "TrimSpace (Symbol example_info) \<noteq> []"
  by code_simp+

theorem validation_before_transport_witness:
  "snd (GetTokenLifetimeFees example_lib example_decode_string (example_client (\<lambda>r. Inl EOF)) ''  '') = []
   \<and> snd (GetTokenLaunchCreators example_lib example_decode_list (example_client (\<lambda>r. Inl EOF)) ''  '') = []
   \<and> snd (GetFeeShareWallet example_lib example_decode_string (example_client (\<lambda>r. Inl EOF)) ''  '') = []
   \<and> snd (CreateFeeShareConfig example_lib example_encode example_decode_ptr
             (example_client (\<lambda>r. Inl EOF)) (Some (example_feeshare\<lparr>Payer := ''  ''\<rparr>))) = []
   \<and> snd (CreateTokenInfoAndMetadata example_lib example_decode_ptr ''B'' None
             (example_client (\<lambda>r. Inl EOF)) (Some (example_info\<lparr>Symbol := ''  ''\<rparr>))) = []
   \<and> snd (CreateTokenInfoAndMetadata example_lib example_decode_ptr ''B'' None
             (example_client (\<lambda>r. Inl EOF)) (Some (example_info\<lparr>Image := None\<rparr>))) = []
   \<and> fst (CreateTokenLaunchConfig example_lib example_encode example_decode_ptr
             (example_client (\<lambda>r. Inl EOF)) (Some \<lparr>LaunchWallet = ''  ''\<rparr>))
       = Inl (ErrText ''launchWallet is required'')
   \<and> snd (CreateTokenLaunchConfig example_lib example_encode example_decode_ptr
             (example_client (\<lambda>r. Inl EOF)) (Some \<lparr>LaunchWallet = ''  ''\<rparr>)) = []
   \<and> snd (CreateTokenLaunchTransaction example_lib example_encode example_decode_string
             (example_client (\<lambda>r. Inl EOF)) (Some (example_tx\<lparr>ConfigKey := ''  ''\<rparr>))) = []"
  using validation_before_transport[where L = example_lib and c = "example_client (\<lambda>r. Inl EOF)"
      and DecS = example_decode_string and DecL = example_decode_list
      and DecP = example_decode_ptr and EncF = example_encode and EncC = example_encode
      and EncT = example_encode and bnd = "''B''" and quota = None
      and tokenMint = "''  ''" and twitterUsername = "''  ''"
      and fs = "example_feeshare\<lparr>Payer := ''  ''\<rparr>"
      and ti = "example_info\<lparr>Symbol := ''  ''\<rparr>"
      and tj = "example_info\<lparr>Image := None\<rparr>"
      and lc = "\<lparr>LaunchWallet = ''  ''\<rparr>"
      and lt = "example_tx\<lparr>ConfigKey := ''  ''\<rparr>"]
    example_nonblank_fields
  by (simp add: TrimSpace_examples)

subsection \<open>The multipart producer\<close>

lemma producer_alt:
  "producer inp img s0 =
     snd (mw_Close (pw_Close
       (case mw_CreatePart (image_header inp) (write_fields (text_fields inp) s0) of
          (Some err, s7) \<Rightarrow> pw_CloseWithError err s7
        | (None, s7) \<Rightarrow>
            (case io_Copy (r_chunks img) (r_end img) s7 of
               (Some err, s8) \<Rightarrow> pw_CloseWithError err s8
             | (None, s8) \<Rightarrow> s8))))"
  by (simp add: producer_def text_fields_def image_header_def Let_def)

lemma pw_Write_werr: "p_werr (pw (snd (pw_Write b s))) = p_werr (pw s)"
  by (simp add: pw_Write_def Let_def split: option.splits)

lemma part_Write_werr: "p_werr (pw (snd (part_Write d s))) = p_werr (pw s)"
  using pw_Write_werr[of d s]
  by (auto simp: part_Write_def split: option.splits prod.splits)


lemma mw_CreatePart_werr: "p_werr (pw (snd (mw_CreatePart h s))) = p_werr (pw s)"
proof -
  define s1 where
    "s1 = (case lastpart s of None \<Rightarrow> s | Some p \<Rightarrow> s\<lparr>lastpart := Some (p\<lparr>pt_closed := True\<rparr>)\<rparr>)"
  define b where
    "b = (if lastpart s \<noteq> None then CRLF @ ''--'' @ boundary s @ CRLF
          else ''--'' @ boundary s @ CRLF) @ header_lines h @ CRLF"
  have pw1: "pw s1 = pw s" by (simp add: s1_def split: option.splits)
  show ?thesis
  proof (cases "case lastpart s of None \<Rightarrow> None | Some p \<Rightarrow> pt_we p")
    case (Some err)
    then have "mw_CreatePart h s = (Some err, s1)"
      by (simp add: mw_CreatePart_def s1_def Let_def)
    with pw1 show ?thesis by simp
  next
    case None
    obtain r s2 where w: "pw_Write b s1 = (r, s2)" by fastforce
    have w2: "p_werr (pw s2) = p_werr (pw s)"
      using pw_Write_werr[of b s1] w pw1 by simp
    have "mw_CreatePart h s =
            (case r of Some err \<Rightarrow> (Some err, s2)
                     | None \<Rightarrow> (None, s2\<lparr>lastpart := Some \<lparr>pt_closed = False, pt_we = None\<rparr>\<rparr>))"
      using None w unfolding mw_CreatePart_def Let_def s1_def [symmetric] b_def [symmetric]
      by (simp split: option.splits)
    with w2 show ?thesis by (cases r) simp_all
  qed
qed


lemma mw_WriteField_werr: "p_werr (pw (snd (mw_WriteField k v s))) = p_werr (pw s)"
proof -
  obtain r s' where c: "mw_CreatePart
      [(''Content-Disposition'', ''form-data; name='' @ dquote @ k @ dquote)] s = (r, s')"
    by fastforce
  have "p_werr (pw s') = p_werr (pw s)"
    using mw_CreatePart_werr[of _ s] c by (metis snd_conv)
  then show ?thesis
    using c part_Write_werr[of v s'] by (cases r) (simp_all add: mw_WriteField_def)
qed

lemma writeField_werr: "p_werr (pw (snd (writeField k v s))) = p_werr (pw s)"
  by (simp add: writeField_def mw_WriteField_werr)

lemma write_fields_werr: "p_werr (pw (write_fields kvs s)) = p_werr (pw s)"
  by (induction kvs s rule: write_fields.induct) (simp_all add: writeField_werr)

lemma io_Copy_werr: "p_werr (pw (snd (io_Copy cs er s))) = p_werr (pw s)"
proof (induction cs arbitrary: s)
  case Nil
  then show ?case by simp
next
  case (Cons c cs)
  obtain r s' where w: "part_Write c s = (r, s')" by fastforce
  have "p_werr (pw s') = p_werr (pw s)"
    using part_Write_werr[of c s] w by simp
  with Cons w show ?case by (cases r) simp_all
qed

lemma pw_CloseWithError_open:
  "p_werr (pw s) = None \<Longrightarrow> p_werr (pw (pw_CloseWithError err s)) = Some err"
  by (simp add: pw_CloseWithError_def)

lemma pw_Close_closed:
  "p_werr (pw s) = Some e \<Longrightarrow> pw_Close s = s"
  by (simp add: pw_Close_def pw_CloseWithError_def)

lemma mw_Close_werr: "p_werr (pw (snd (mw_Close s))) = p_werr (pw s)"
proof (cases "lastpart s")
  case None
  then show ?thesis by (simp add: mw_Close_def pw_Write_werr)
next
  case (Some p)
  show ?thesis
  proof (cases "pt_we p")
    case None
    with Some show ?thesis
      using pw_Write_werr[of _ "s\<lparr>lastpart := None\<rparr>"] by (simp add: mw_Close_def)
  next
    case (Some err)
    with \<open>lastpart s = Some p\<close> show ?thesis by (simp add: mw_Close_def)
  qed
qed

lemma pw_Write_lastpart: "lastpart (snd (pw_Write b s)) = lastpart s"
  by (simp add: pw_Write_def Let_def split: option.splits)

lemma mw_Close_lastpart:
  "case lastpart (snd (mw_Close s)) of None \<Rightarrow> True | Some p \<Rightarrow> pt_closed p"
proof (cases "lastpart s")
  case None
  then show ?thesis using pw_Write_lastpart[of _ s] by (simp add: mw_Close_def)
next
  case (Some p)
  show ?thesis
  proof (cases "pt_we p")
    case None
    with Some show ?thesis
      using pw_Write_lastpart[of _ "s\<lparr>lastpart := None\<rparr>"] by (simp add: mw_Close_def)
  next
    case (Some err)
    with \<open>lastpart s = Some p\<close> show ?thesis by (simp add: mw_Close_def)
  qed
qed

lemma producer_end:
  "b_end (pipe_body (producer inp img (new_upload bnd quota)))
     = Some (case producer_exit inp img (new_upload bnd quota) of None \<Rightarrow> EOF | Some err \<Rightarrow> err)"
proof -
  let ?s0 = "new_upload bnd quota"
  let ?s6 = "write_fields (text_fields inp) ?s0"
  have open6: "p_werr (pw ?s6) = None"
    by (simp add: write_fields_werr new_upload_def)
  obtain r7 s7 where c: "mw_CreatePart (image_header inp) ?s6 = (r7, s7)" by fastforce
  have open7: "p_werr (pw s7) = None"
    using mw_CreatePart_werr[of "image_header inp" ?s6] c open6 by simp
  obtain r8 s8 where cp: "io_Copy (r_chunks img) (r_end img) s7 = (r8, s8)" by fastforce
  have open8: "p_werr (pw s8) = None"
    using io_Copy_werr[of "r_chunks img" "r_end img" s7] cp open7 by simp
  show ?thesis
  proof (cases r7)
    case (Some err)
    then show ?thesis
      using c open7
      by (simp add: producer_alt producer_exit_def pipe_body_def mw_Close_werr pw_Close_closed
          pw_CloseWithError_open)
  next
    case None
    note r7 = None
    show ?thesis
    proof (cases r8)
      case (Some err)
      then show ?thesis
        using c cp r7 open8
        by (simp add: producer_alt producer_exit_def pipe_body_def mw_Close_werr pw_Close_closed
            pw_CloseWithError_open)
    next
      case None
      then show ?thesis
        using c cp r7 open8
        by (simp add: producer_alt producer_exit_def pipe_body_def mw_Close_werr)
          (simp add: pw_Close_def pw_CloseWithError_open)
    qed
  qed
qed

text \<open>
  C1 (amended). On every way out of the producer, for every request, attachment source,
  boundary and reader behaviour, both deferred closes have run when it ends: the write
  end of the pipe is closed, so the reader's stream ends instead of blocking, with \<open>EOF\<close>
  when the producer ran to the end of its body and with the error of the failed
  \<open>CreatePart\<close> or copy when it returned early; and the multipart writer has no unfinished
  part.
\<close>

theorem producer_closes_pipe:
  "b_end (pipe_body (producer inp img (new_upload bnd quota)))
     = Some (case producer_exit inp img (new_upload bnd quota) of None \<Rightarrow> EOF | Some err \<Rightarrow> err)
   \<and> (case lastpart (producer inp img (new_upload bnd quota)) of
        None \<Rightarrow> True | Some p \<Rightarrow> pt_closed p)"
  using producer_end[of inp img bnd quota] by (simp add: producer_alt mw_Close_lastpart)


lemma flowing_emit [simp]: "flowing (emit b s) = flowing s"
  by (simp add: flowing_def emit_def)

lemma emit_fields [simp]:
  "lastpart (emit b s) = lastpart s" "boundary (emit b s) = boundary s"
  "p_data (pw (emit b s)) = p_data (pw s) @ b" "p_werr (pw (emit b s)) = p_werr (pw s)"
  by (simp_all add: emit_def)

lemma pw_Write_flowing: "flowing s \<Longrightarrow> pw_Write b s = (None, emit b s)"
  by (simp add: flowing_def pw_Write_def emit_def Let_def)

lemma part_Write_flowing:
  "flowing s \<Longrightarrow> lastpart s = Some fresh_part \<Longrightarrow> part_Write d s = (None, emit d s)"
  by (simp add: part_Write_def pw_Write_flowing fresh_part_def)

lemma mw_CreatePart_flowing:
  assumes "flowing s"
  shows "mw_CreatePart h s
           = (None, (emit (part_bytes (boundary s) (lastpart s = None) h []) s)
                      \<lparr>lastpart := Some fresh_part\<rparr>)"
proof (cases "lastpart s")
  case None
  with assms show ?thesis
    by (simp add: mw_CreatePart_def pw_Write_flowing part_bytes_def fresh_part_def)
next
  case (Some p)
  with assms have p: "p = fresh_part" by (simp add: flowing_def)
  have w: "pw_Write b (s\<lparr>lastpart := lp\<rparr>) = (None, emit b (s\<lparr>lastpart := lp\<rparr>))" for b lp
    using assms by (simp add: flowing_def pw_Write_def emit_def Let_def)
  show ?thesis
    using Some p
    apply (simp add: mw_CreatePart_def part_bytes_def Let_def)
    apply (simp only: w)
    apply (simp add: emit_def fresh_part_def)
    done
qed

lemma flowing_new_part: "flowing s \<Longrightarrow> flowing (s\<lparr>lastpart := Some fresh_part\<rparr>)"
  by (simp add: flowing_def)

lemma writeField_flowing:
  assumes "flowing s" and "TrimSpace v \<noteq> []"
  shows "snd (writeField k v s)
           = (emit (parts_bytes (boundary s) (lastpart s = None) [field_part (k, v)]) s)
               \<lparr>lastpart := Some fresh_part\<rparr>"
proof -
  let ?h = "[(''Content-Disposition'', ''form-data; name='' @ dquote @ k @ dquote)]"
  let ?s' = "(emit (part_bytes (boundary s) (lastpart s = None) ?h []) s)\<lparr>lastpart := Some fresh_part\<rparr>"
  have fl: "flowing ?s'" using assms(1) by (simp add: flowing_new_part)
  have "part_Write v ?s' = (None, emit v ?s')"
    using fl by (simp add: part_Write_flowing)
  then show ?thesis
    using assms
    by (simp add: writeField_def mw_WriteField_def mw_CreatePart_flowing field_part_def)
       (simp add: emit_def part_bytes_def)
qed

lemma write_fields_flowing:
  "flowing s \<Longrightarrow>
   flowing (write_fields kvs s) \<and>
   boundary (write_fields kvs s) = boundary s \<and>
   p_data (pw (write_fields kvs s))
     = p_data (pw s) @ parts_bytes (boundary s) (lastpart s = None)
         (map field_part (filter (\<lambda>kv. TrimSpace (snd kv) \<noteq> []) kvs)) \<and>
   (lastpart (write_fields kvs s) = None) =
     (lastpart s = None \<and> filter (\<lambda>kv. TrimSpace (snd kv) \<noteq> []) kvs = [])"
proof (induction kvs s rule: write_fields.induct)
  case (1 s)
  then show ?case by simp
next
  case (2 k v kvs s)
  show ?case
  proof (cases "TrimSpace v = []")
    case True
    then have "snd (writeField k v s) = s" by (simp add: writeField_def)
    with 2 True show ?thesis by simp
  next
    case False
    let ?s' = "snd (writeField k v s)"
    have s': "?s' = (emit (parts_bytes (boundary s) (lastpart s = None) [field_part (k, v)]) s)
               \<lparr>lastpart := Some fresh_part\<rparr>"
      using "2.prems" False by (rule writeField_flowing)
    have fl: "flowing ?s'" unfolding s' using "2.prems" by (simp add: flowing_new_part)
    from "2.IH"[OF fl] s' False show ?thesis
      by (simp add: field_part_def)
  qed
qed

lemma io_Copy_flowing:
  "flowing s \<Longrightarrow> lastpart s = Some fresh_part \<Longrightarrow>
   io_Copy cs er s = ((if er = EOF then None else Some er), emit (concat cs) s)"
proof (induction cs arbitrary: s)
  case Nil
  then show ?case by (simp add: emit_def)
next
  case (Cons c cs)
  have e: "emit (concat cs) (emit c s) = emit (c @ concat cs) s"
    by (simp add: emit_def)
  show ?case
  proof (cases "c = []")
    case True
    with Cons show ?thesis by simp
  next
    case False
    with Cons.prems Cons.IH[of "emit c s"] show ?thesis
      by (simp add: part_Write_flowing e)
  qed
qed

text \<open>
  C1 (as stated, refuted). With an attachment source that fails after its first chunk the
  stream the transport reads ends with the source's error and is not terminated by the
  closing boundary: a failed copy aborts the pipe.
\<close>

theorem producer_failed_copy_incomplete:
  "b_end (pipe_body (producer example_info failing_image (new_upload ''B'' None)))
     = Some (ErrLib ''read failed'')
   \<and> \<not> suffix (closing_boundary ''B'')
         (b_data (pipe_body (producer example_info failing_image (new_upload ''B'' None))))"
  by code_simp

theorem producer_closes_pipe_witness:
  "b_end (pipe_body (producer example_info example_image (new_upload ''B'' (Some 40))))
     = Some ErrClosedPipe
   \<and> b_end (pipe_body (producer example_info example_image (new_upload ''B'' None)))
     = Some EOF"
proof -
  have e1: "producer_exit example_info example_image (new_upload ''B'' (Some 40))
              = Some ErrClosedPipe"
    by code_simp
  have e2: "producer_exit example_info example_image (new_upload ''B'' None) = None"
    by code_simp
  show ?thesis
    using producer_closes_pipe[of example_info example_image "''B''" "Some 40"]
      producer_closes_pipe[of example_info example_image "''B''" None]
    by (simp add: e1 e2)
qed

text \<open>
  The bytes the reader receives when the producer runs to the end of its body with the
  example request: the parts, and no closing boundary after them. The deferred
  \<open>pw.Close()\<close> runs before the deferred \<open>mw.Close()\<close>, whose write of the closing
  boundary then meets a closed pipe.
\<close>

lemma producer_normal_completion_bytes:
  "b_end (pipe_body (producer example_info example_image (new_upload ''B'' None))) = Some EOF
   \<and> b_data (pipe_body (producer example_info example_image (new_upload ''B'' None)))
       = parts_bytes ''B'' True
           [field_part (''name'', ''Token''), field_part (''symbol'', ''TKN''),
            field_part (''twitter'', ''@tkn''),
            (image_header example_info, ''PNGdata'')]
   \<and> \<not> suffix (closing_boundary ''B'')
         (b_data (pipe_body (producer example_info example_image (new_upload ''B'' None))))"
  by code_simp

lemma parts_bytes_append:
  "parts_bytes bnd first (ps @ qs)
     = parts_bytes bnd first ps @ parts_bytes bnd (first \<and> ps = []) qs"
  by (induction ps arbitrary: first) auto

lemma mw_Close_data_closed:
  assumes "p_werr (pw s) \<noteq> None"
  shows "p_data (pw (snd (mw_Close s))) = p_data (pw s)"
proof -
  have w: "pw_Write b (s\<lparr>lastpart := lp\<rparr>) = (Some ErrClosedPipe, s\<lparr>lastpart := lp\<rparr>)" for b lp
    using assms by (simp add: pw_Write_def Let_def)
  have w': "pw_Write b s = (Some ErrClosedPipe, s)" for b
    using assms by (simp add: pw_Write_def Let_def)
  show ?thesis
    by (simp add: mw_Close_def w w' split: option.splits)
qed

text \<open>
  With a reader that reads to the end, the reader receives the parts of the text fields
  that are not blank and the image part with everything the source delivered, and the
  stream ends with the error that ended the source.
\<close>

lemma producer_flowing:
  "p_data (pw (producer inp img (new_upload bnd None)))
     = parts_bytes bnd True
         (map field_part (sent_fields inp) @ [(image_header inp, concat (r_chunks img))])
   \<and> p_werr (pw (producer inp img (new_upload bnd None))) = Some (r_end img)"
proof -
  let ?s0 = "new_upload bnd None"
  let ?s6 = "write_fields (text_fields inp) ?s0"
  have fl0: "flowing ?s0" by (simp add: flowing_def new_upload_def)
  from write_fields_flowing[OF fl0, of "text_fields inp"]
  have fl6: "flowing ?s6" and b6: "boundary ?s6 = bnd"
    and d6: "p_data (pw ?s6) = parts_bytes bnd True (map field_part (sent_fields inp))"
    and l6: "(lastpart ?s6 = None) = (sent_fields inp = [])"
    by (simp_all add: new_upload_def sent_fields_def)
  let ?s7 = "(emit (part_bytes bnd (sent_fields inp = []) (image_header inp) []) ?s6)
               \<lparr>lastpart := Some fresh_part\<rparr>"
  have c7: "mw_CreatePart (image_header inp) ?s6 = (None, ?s7)"
    using mw_CreatePart_flowing[OF fl6, of "image_header inp"] b6 l6 by simp
  have fl7: "flowing ?s7" using fl6 by (simp add: flowing_new_part)
  let ?s8 = "emit (concat (r_chunks img)) ?s7"
  have c8: "io_Copy (r_chunks img) (r_end img) ?s7
              = ((if r_end img = EOF then None else Some (r_end img)), ?s8)"
    using io_Copy_flowing[OF fl7] by simp
  have open8: "p_werr (pw ?s8) = None" using fl7 by (simp add: flowing_def)
  let ?s9 = "if r_end img = EOF then ?s8 else pw_CloseWithError (r_end img) ?s8"
  have run: "producer inp img ?s0 = snd (mw_Close (pw_Close ?s9))"
    by (simp add: producer_alt c7 c8)
  have w9: "p_werr (pw (pw_Close ?s9)) = Some (r_end img)"
    using open8 by (simp add: pw_Close_def pw_CloseWithError_def)
  have d9: "p_data (pw (pw_Close ?s9)) = p_data (pw ?s8)"
    by (simp add: pw_Close_def pw_CloseWithError_def Let_def split: option.splits)
  have d8: "p_data (pw ?s8)
              = parts_bytes bnd True (map field_part (sent_fields inp))
                @ part_bytes bnd (sent_fields inp = []) (image_header inp) (concat (r_chunks img))"
    by (simp add: d6 part_bytes_def)
  have "p_data (pw (producer inp img ?s0)) = p_data (pw (pw_Close ?s9))"
    unfolding run using mw_Close_data_closed[of "pw_Close ?s9"] w9 by simp
  then have "p_data (pw (producer inp img ?s0))
               = parts_bytes bnd True (map field_part (sent_fields inp))
                 @ part_bytes bnd (sent_fields inp = []) (image_header inp) (concat (r_chunks img))"
    unfolding d9 d8 .
  then have "p_data (pw (producer inp img ?s0))
               = parts_bytes bnd True
                   (map field_part (sent_fields inp) @ [(image_header inp, concat (r_chunks img))])"
    by (simp add: parts_bytes_append)
  moreover have "p_werr (pw (producer inp img ?s0)) = Some (r_end img)"
    unfolding run using mw_Close_werr[of "pw_Close ?s9"] w9 by simp
  ultimately show ?thesis by simp
qed

lemma filter_key_sent:
  "filter (\<lambda>p. fst p = k) (filter (\<lambda>kv. TrimSpace (snd kv) \<noteq> []) kvs)
     = filter (\<lambda>kv. fst kv = k \<and> TrimSpace (snd kv) \<noteq> []) kvs"
  by (induction kvs) auto

lemma sent_field_by_name:
  "filter (\<lambda>p. fst p = ''name'') (sent_fields inp)
     = (if TrimSpace (Name inp) = [] then [] else [(''name'', Name inp)])"
  "filter (\<lambda>p. fst p = ''symbol'') (sent_fields inp)
     = (if TrimSpace (Symbol inp) = [] then [] else [(''symbol'', Symbol inp)])"
  "filter (\<lambda>p. fst p = ''description'') (sent_fields inp)
     = (if TrimSpace (Description inp) = [] then [] else [(''description'', Description inp)])"
  "filter (\<lambda>p. fst p = ''telegram'') (sent_fields inp)
     = (if TrimSpace (Telegram inp) = [] then [] else [(''telegram'', Telegram inp)])"
  "filter (\<lambda>p. fst p = ''twitter'') (sent_fields inp)
     = (if TrimSpace (Twitter inp) = [] then [] else [(''twitter'', Twitter inp)])"
  "filter (\<lambda>p. fst p = ''website'') (sent_fields inp)
     = (if TrimSpace (Website inp) = [] then [] else [(''website'', Website inp)])"
  unfolding sent_fields_def filter_key_sent text_fields_def by simp_all

lemma text_fields_once:
  assumes "kv \<in> set (text_fields inp)"
  shows "filter (\<lambda>p. fst p = fst kv) (sent_fields inp)
           = (if TrimSpace (snd kv) = [] then [] else [kv])"
proof -
  from assms have "kv = (''name'', Name inp) \<or> kv = (''symbol'', Symbol inp)
    \<or> kv = (''description'', Description inp) \<or> kv = (''telegram'', Telegram inp)
    \<or> kv = (''twitter'', Twitter inp) \<or> kv = (''website'', Website inp)"
    unfolding text_fields_def by simp
  then show ?thesis
    by (elim disjE) (simp_all only: fst_conv snd_conv sent_field_by_name)
qed

text \<open>
  C5. With a reader that reads the body to its end, the body of the upload starts with
  the encoding of these parts, in this order: one part for each text field (name, symbol,
  description, telegram, twitter, website) whose value is not blank, carrying the value as
  given, not trimmed; then the image part. Among the text parts a field that is blank
  does not occur, and a field that is not blank occurs exactly once, with its value.
\<close>

theorem text_fields_encoded_once:
  "prefix
     (parts_bytes bnd True
        (map field_part (sent_fields inp) @ [(image_header inp, concat (r_chunks img))]))
     (b_data (pipe_body (producer inp img (new_upload bnd None))))
   \<and> (\<forall>kv \<in> set (text_fields inp).
        filter (\<lambda>p. fst p = fst kv) (sent_fields inp)
          = (if TrimSpace (snd kv) = [] then [] else [kv]))"
  using producer_flowing[of inp img bnd] text_fields_once[of _ inp]
  by (simp add: pipe_body_def)

theorem text_fields_encoded_once_witness:
  "prefix
     (parts_bytes ''B'' True
        [field_part (''name'', ''Token''), field_part (''symbol'', ''TKN''),
         field_part (''twitter'', ''@tkn''), (image_header example_info, ''PNGdata'')])
     (b_data (pipe_body (producer example_info example_image (new_upload ''B'' None))))
   \<and> filter (\<lambda>p. fst p = ''description'') (sent_fields example_info) = []
   \<and> filter (\<lambda>p. fst p = ''twitter'') (sent_fields example_info) = [(''twitter'', ''@tkn'')]"
proof -
  have sent: "sent_fields example_info
                = [(''name'', ''Token''), (''symbol'', ''TKN''), (''twitter'', ''@tkn'')]"
    by code_simp
  have chunks: "concat (r_chunks example_image) = ''PNGdata''"
    by (simp add: example_image_def)
  have m1: "(''description'', ''  '') \<in> set (text_fields example_info)"
    and m2: "(''twitter'', ''@tkn'') \<in> set (text_fields example_info)"
    by (simp_all add: text_fields_def example_info_def)
  have b1: "TrimSpace ''  '' = []" and b2: "TrimSpace ''@tkn'' \<noteq> []"
    by code_simp+
  note t = text_fields_encoded_once[of "''B''" example_info example_image]
  have p: "prefix
     (parts_bytes ''B'' True
        (map field_part (sent_fields example_info)
           @ [(image_header example_info, concat (r_chunks example_image))]))
     (b_data (pipe_body (producer example_info example_image (new_upload ''B'' None))))"
    using t by (rule conjunct1)
  have q: "\<forall>kv \<in> set (text_fields example_info).
        filter (\<lambda>p. fst p = fst kv) (sent_fields example_info)
          = (if TrimSpace (snd kv) = [] then [] else [kv])"
    using t by (rule conjunct2)
  have "filter (\<lambda>p. fst p = fst (''description'', ''  '')) (sent_fields example_info)
      = (if TrimSpace (snd (''description'', ''  '')) = [] then [] else [(''description'', ''  '')])"
    using q m1 by (rule bspec)
  then have d: "filter (\<lambda>p. fst p = ''description'') (sent_fields example_info) = []"
    using b1 by simp
  have "filter (\<lambda>p. fst p = fst (''twitter'', ''@tkn'')) (sent_fields example_info)
      = (if TrimSpace (snd (''twitter'', ''@tkn'')) = [] then [] else [(''twitter'', ''@tkn'')])"
    using q m2 by (rule bspec)
  then have w: "filter (\<lambda>p. fst p = ''twitter'') (sent_fields example_info)
                  = [(''twitter'', ''@tkn'')]"
    using b2 by simp
  have l: "map field_part (sent_fields example_info)
             @ [(image_header example_info, concat (r_chunks example_image))]
           = [field_part (''name'', ''Token''), field_part (''symbol'', ''TKN''),
              field_part (''twitter'', ''@tkn''), (image_header example_info, ''PNGdata'')]"
    unfolding sent chunks by simp
  show ?thesis
    using p d w unfolding l by (intro conjI)
qed

lemma newRequest_Body:
  "newRequest L c method relPath body contentType = Inr req \<Longrightarrow> Body req = body"
  by (auto simp: newRequest_def Let_def split: sum.splits option.splits)

text \<open>
  C6. When the attachment source ends with a read error, with a reader that reads the
  body to its end: the producer closes the pipe with that error, so the stream the
  transport reads ends with the source's error, neither blocking nor ending regularly;
  and with a transport that reports a failure when the request body fails, the operation,
  called with a request that passes validation, returns an error.
\<close>

theorem read_error_reaches_reader:
  assumes "r_end img \<noteq> EOF"
    and "TrimSpace (Name rq) \<noteq> []" and "TrimSpace (Symbol rq) \<noteq> []"
    and "Image rq = Some img" and "TrimSpace (ImageFilename rq) \<noteq> []"
    and "reports_body_errors c"
  shows "producer_exit rq img (new_upload bnd None) = Some (r_end img)
       \<and> b_end (pipe_body (producer rq img (new_upload bnd None))) = Some (r_end img)
       \<and> isl (fst (CreateTokenInfoAndMetadata L Decode bnd None c (Some rq)))"
proof -
  let ?pr = "pipe_body (producer rq img (new_upload bnd None))"
  have e: "b_end ?pr = Some (r_end img)"
    using producer_flowing[of rq img bnd] by (simp add: pipe_body_def)
  have x: "producer_exit rq img (new_upload bnd None) = Some (r_end img)"
    using producer_end[of rq img bnd None] e assms(1)
    by (auto split: option.splits)
  have "isl (fst (CreateTokenInfoAndMetadata L Decode bnd None c (Some rq)))"
  proof (cases "newRequest L c ''POST'' ''token-launch/create-token-info'' (Some ?pr)
                  (FormDataContentType bnd)")
    case (Inl err)
    then show ?thesis
      using assms(2-5) by (simp add: CreateTokenInfoAndMetadata_def)
  next
    case (Inr req)
    then have "Body req = Some ?pr" by (rule newRequest_Body)
    with assms(6) e assms(1) have "isl (HTTP c req)"
      by (simp add: reports_body_errors_def)
    then obtain err where "HTTP c req = Inl err" by (cases "HTTP c req") auto
    then have "do L c req (Some Decode) = (Inl err, [req])"
      by (simp add: do_def)
    with Inr show ?thesis
      using assms(2-5) by (simp add: CreateTokenInfoAndMetadata_def)
  qed
  with e x show ?thesis by simp
qed
theorem read_error_reaches_reader_witness:
  "b_end (pipe_body (producer (example_info\<lparr>Image := Some failing_image\<rparr>) failing_image
            (new_upload ''B'' None))) = Some (ErrLib ''read failed'')
   \<and> isl (fst (CreateTokenInfoAndMetadata example_lib example_decode_ptr ''B'' None
            (example_client (checking_transport (example_response 200 ''200 OK'' body_null_response)))
            (Some (example_info\<lparr>Image := Some failing_image\<rparr>))))"
proof -
  let ?rq = "example_info\<lparr>Image := Some failing_image\<rparr>"
  let ?c = "example_client (checking_transport (example_response 200 ''200 OK'' body_null_response))"
  have h1: "r_end failing_image \<noteq> EOF" by (simp add: failing_image_def)
  have h2: "TrimSpace (Name ?rq) \<noteq> []" using example_nonblank(12) by simp
  have h3: "TrimSpace (Symbol ?rq) \<noteq> []" using example_nonblank(13) by simp
  have h4: "Image ?rq = Some failing_image" by simp
  have h5: "TrimSpace (ImageFilename ?rq) \<noteq> []" using example_nonblank(14) by simp
  have h6: "reports_body_errors ?c"
    by (simp add: reports_body_errors_def example_client_def checking_transport_def)
  show ?thesis
    using read_error_reaches_reader[OF h1 h2 h3 h4 h5 h6, of "''B''" example_lib
        example_decode_ptr]
    by (simp add: failing_image_def)
qed

end
